theory Spec2Isabelle
  imports
    Complex_Main
    "HOL-Library.Char_ord"
    "HOL-Library.List_Lexorder"
    "HOL-Library.Product_Lexorder"
    "HOL-Library.Log_Nat"
begin

section \<open>The ETL pipeline of \<^verbatim>\<open>etl_demo.py\<close>\<close>

text \<open>
  The class \<^verbatim>\<open>ETLPipeline\<close> keeps four attributes (raw table, processed table, quality
  report, log) and mutates them in \<^verbatim>\<open>transform_data\<close> and \<^verbatim>\<open>load_and_analyze\<close>.
  The embedding passes the object explicitly: every method takes the pipeline and returns
  its outcome (a value, or the exception that escapes) together with the pipeline as the
  call leaves it.

  Conventions of the embedding.
  \<^item> A data frame is the list of its rows in index order (the index is the default
    \<^verbatim>\<open>RangeIndex\<close>); a column that may be absent is kept beside the rows.
  \<^item> A number is a float64 value, written as the rational it is exactly. Arithmetic on
    two numbers rounds the exact result to the nearest float64, a tie going to the even
    significand, and overflows to an infinity; the two zeros are not told apart. The
    thresholds the code compares against (0, 50, 200, 300, 500, 1000) are float64 values,
    so comparisons are exact.
  \<^item> How pandas adds up a column or a group is not in the repository and changes
    between versions of the library (order of the additions, compensated summation,
    wrap-around in an int64 column). The sum of a column and the sum of a group are
    therefore parameters of the embedding, \<open>series_sum\<close> and \<open>group_sum\<close>: they give the
    finite number the library computes from the cells it is handed. Every property below
    holds for every choice of the two; the concrete tables are run with plain float64
    accumulation.
  \<^item> A cell of a numeric column is a number, the missing value, or a text that numeric
    coercion does not read as a number. Reading text as a number or as a date is the
    library's parser and is not re-implemented: a cell that parses is given as its value.
    The numeric columns are float64 columns after coercion. Where pandas keeps a column
    of whole numbers as int64, the grouped sums are still covered by the parameter, and
    the arithmetic on them agrees with float64 while they stay below \<open>2^53\<close> in magnitude.
  \<^item> The column \<^verbatim>\<open>customer_email\<close> is a string column (a text or the missing value in
    every cell), and the raw table has the columns the code reads and no column
    \<^verbatim>\<open>data_quality_flag\<close> of its own.
  \<^item> The columns \<^verbatim>\<open>days_since_order\<close> and \<^verbatim>\<open>is_weekend_order\<close> read the wall clock
    and the calendar and raise nothing; no property below reads them, and they are
    left out of the processed row. Log lines are kept without their time stamp.
\<close>

subsection \<open>Values\<close>

datatype cell = Num rat | Text string | NaN

datatype date_cell = Date int int int | DateText string | NaT

datatype npfloat = Fin rat | PosInf | NegInf | NaNf

datatype py_error = ZeroDivisionError | IndexingError | ValueError

datatype 'a result = Raise py_error | Return 'a

datatype flag = Invalid_Email | Invalid_Price | Invalid_Quantity

datatype tier = Budget | Mid_range | Premium | Luxury

datatype segment = VIP | Regular | New

type_synonym period = "int \<times> int"

subsection \<open>Float64 arithmetic\<close>

text \<open>The whole number nearest to \<open>x\<close>, a tie going to the even one.\<close>

definition round_half_even :: "rat \<Rightarrow> int" where
  "round_half_even x =
     (let f = \<lfloor>x\<rfloor>; d = x - of_int f
      in if d < 1 / 2 then f
         else if 1 / 2 < d then f + 1
         else if even f then f else f + 1)"

definition pow2 :: "int \<Rightarrow> rat" where
  "pow2 e = (if 0 \<le> e then 2 ^ nat e else 1 / 2 ^ nat (- e))"

text \<open>The binary exponent of a positive number: the \<open>e\<close> with \<open>2^e \<le> x < 2^(e+1)\<close>.\<close>

definition ilog2 :: "rat \<Rightarrow> int" where
  "ilog2 x =
     (let (p, q) = quotient_of x; d = bitlen p - bitlen q
      in if pow2 d \<le> x then d else d - 1)"

text \<open>Rounding to float64: 53 significant bits, the spacing of the subnormal numbers
  below \<open>2^-1022\<close>, nearest value with ties to even; a result of magnitude \<open>2^1024\<close>
  or more is an infinity.\<close>

definition nearest_float64 :: "rat \<Rightarrow> rat" where
  "nearest_float64 x =
     (if x = 0 then 0
      else (let u = pow2 (max (ilog2 \<bar>x\<bar>) (- 1022) - 52)
            in of_int (round_half_even (x / u)) * u))"

definition fl64 :: "rat \<Rightarrow> npfloat" where
  "fl64 x =
     (let r = nearest_float64 x
      in if r = 0 then Fin 0
         else if 1024 \<le> ilog2 \<bar>r\<bar> then (if 0 < r then PosInf else NegInf)
         else Fin r)"

text \<open>Subtraction, multiplication and division of float64 values as numpy and Python
  floats compute them. The division is numpy's: a zero divisor raises nothing and gives
  an infinity or NaN.\<close>

fun f_sub :: "npfloat \<Rightarrow> npfloat \<Rightarrow> npfloat" where
  "f_sub (Fin x) (Fin y) = fl64 (x - y)"
| "f_sub NaNf b = NaNf"
| "f_sub a NaNf = NaNf"
| "f_sub PosInf PosInf = NaNf"
| "f_sub NegInf NegInf = NaNf"
| "f_sub PosInf b = PosInf"
| "f_sub NegInf b = NegInf"
| "f_sub a PosInf = NegInf"
| "f_sub a NegInf = PosInf"

fun f_mul :: "npfloat \<Rightarrow> npfloat \<Rightarrow> npfloat" where
  "f_mul (Fin x) (Fin y) = fl64 (x * y)"
| "f_mul NaNf b = NaNf"
| "f_mul a NaNf = NaNf"
| "f_mul PosInf (Fin y) = (if 0 < y then PosInf else if y < 0 then NegInf else NaNf)"
| "f_mul NegInf (Fin y) = (if 0 < y then NegInf else if y < 0 then PosInf else NaNf)"
| "f_mul (Fin x) PosInf = (if 0 < x then PosInf else if x < 0 then NegInf else NaNf)"
| "f_mul (Fin x) NegInf = (if 0 < x then NegInf else if x < 0 then PosInf else NaNf)"
| "f_mul PosInf PosInf = PosInf"
| "f_mul PosInf NegInf = NegInf"
| "f_mul NegInf PosInf = NegInf"
| "f_mul NegInf NegInf = PosInf"

fun f_div :: "npfloat \<Rightarrow> npfloat \<Rightarrow> npfloat" where
  "f_div (Fin x) (Fin y) =
     (if y = 0 then (if 0 < x then PosInf else if x < 0 then NegInf else NaNf)
      else fl64 (x / y))"
| "f_div NaNf b = NaNf"
| "f_div a NaNf = NaNf"
| "f_div PosInf (Fin y) = (if y < 0 then NegInf else PosInf)"
| "f_div NegInf (Fin y) = (if y < 0 then PosInf else NegInf)"
| "f_div (Fin x) PosInf = Fin 0"
| "f_div (Fin x) NegInf = Fin 0"
| "f_div PosInf b = NaNf"
| "f_div NegInf b = NaNf"

text \<open>\<^verbatim>\<open>round(x, 2)\<close> on a \<^verbatim>\<open>numpy.float64\<close>: numpy multiplies by 100, rounds to the
  nearest whole number (ties to even) and divides by 100, each step in float64.\<close>

fun np_rint :: "npfloat \<Rightarrow> npfloat" where
  "np_rint (Fin x) = Fin (of_int (round_half_even x))"
| "np_rint PosInf = PosInf"
| "np_rint NegInf = NegInf"
| "np_rint NaNf = NaNf"

definition np_round2 :: "npfloat \<Rightarrow> npfloat" where
  "np_round2 x = f_div (np_rint (f_mul x (Fin 100))) (Fin 100)"

text \<open>\<^verbatim>\<open>round(x, 2)\<close> on a Python float: the exact value of \<open>x\<close> is rounded to two
  decimals (ties to even), and the float64 nearest to that decimal is returned.\<close>

fun py_round2 :: "npfloat \<Rightarrow> npfloat" where
  "py_round2 (Fin x) = fl64 (of_int (round_half_even (x * 100)) / 100)"
| "py_round2 PosInf = PosInf"
| "py_round2 NegInf = NegInf"
| "py_round2 NaNf = NaNf"

subsection \<open>Library operations the code calls\<close>

text \<open>The sums pandas computes: \<^verbatim>\<open>col.sum()\<close> from the cells of a column, and the sum
  of one group of \<^verbatim>\<open>df.groupby(key)[val].sum()\<close> from the cells of the group, both in
  row order and with missing values skipped by the library.\<close>

record numerics =
  series_sum :: "cell list \<Rightarrow> rat"
  group_sum :: "cell list \<Rightarrow> rat"

text \<open>\<^verbatim>\<open>pd.to_numeric(col, errors='coerce')\<close> and \<^verbatim>\<open>pd.to_datetime(col, errors='coerce')\<close>,
  cell by cell.\<close>

fun to_numeric :: "cell \<Rightarrow> cell" where
  "to_numeric (Num x) = Num x"
| "to_numeric (Text s) = NaN"
| "to_numeric NaN = NaN"

fun to_datetime :: "date_cell \<Rightarrow> date_cell" where
  "to_datetime (Date y m d) = Date y m d"
| "to_datetime (DateText s) = NaT"
| "to_datetime NaT = NaT"

text \<open>\<^verbatim>\<open>col.str.contains('@', na=False)\<close>: a missing value counts as no match.\<close>

fun str_contains_at :: "string option \<Rightarrow> bool" where
  "str_contains_at None = False"
| "str_contains_at (Some s) = (CHR ''@'' \<in> set s)"

text \<open>\<^verbatim>\<open>col <= 0\<close> on a coerced column: a comparison with NaN is false.\<close>

fun le_zero :: "cell \<Rightarrow> bool" where
  "le_zero (Num x) = (x \<le> 0)"
| "le_zero (Text s) = False"
| "le_zero NaN = False"

fun notna :: "cell \<Rightarrow> bool" where
  "notna (Num x) = True"
| "notna (Text s) = True"
| "notna NaN = False"

text \<open>\<^verbatim>\<open>pd.cut(x, bins, labels)\<close> with the defaults \<^verbatim>\<open>right=True\<close>,
  \<^verbatim>\<open>include_lowest=False\<close>: bin \<open>i\<close> is the interval \<open>(lo, hi]\<close>, open on the left
  and closed on the right; an upper edge \<open>None\<close> is \<^verbatim>\<open>float('inf')\<close>. A value in no
  bin, and NaN, get no label.\<close>

fun cut :: "(rat \<times> rat option \<times> 'l) list \<Rightarrow> cell \<Rightarrow> 'l option" where
  "cut [] c = None"
| "cut ((lo, hi, l) # bs) (Num x) =
     (if lo < x \<and> (case hi of None \<Rightarrow> True | Some h \<Rightarrow> x \<le> h) then Some l
      else cut bs (Num x))"
| "cut ((lo, hi, l) # bs) (Text s) = None"
| "cut ((lo, hi, l) # bs) NaN = None"

text \<open>\<^verbatim>\<open>df.groupby(key)[val].sum()\<close>: one entry per distinct key that is not missing, in
  sorted key order, holding the sum the library computes from the cells of the group.
  \<^verbatim>\<open>sort_index\<close> sorts the entries by key.\<close>

definition groupby_sum ::
  "numerics \<Rightarrow> ('r \<Rightarrow> 'k::linorder option) \<Rightarrow> ('r \<Rightarrow> cell) \<Rightarrow> 'r list \<Rightarrow> ('k \<times> rat) list" where
  "groupby_sum L key val df =
     map (\<lambda>k. (k, group_sum L (map val (filter (\<lambda>r. key r = Some k) df))))
         (sort (remdups (List.map_filter key df)))"

definition sort_index :: "('k::linorder \<times> rat) list \<Rightarrow> ('k \<times> rat) list" where
  "sort_index s = sort_key fst s"

text \<open>\<^verbatim>\<open>series.get(k, default)\<close>.\<close>

definition series_get :: "('k \<times> rat) list \<Rightarrow> 'k \<Rightarrow> rat \<Rightarrow> rat" where
  "series_get s k d = (case map_of s k of None \<Rightarrow> d | Some v \<Rightarrow> v)"

text \<open>\<^verbatim>\<open>series.idxmax()\<close>: the label of the first maximum; \<^verbatim>\<open>ValueError\<close> on an empty
  series.\<close>

fun argmax_from :: "'k \<Rightarrow> rat \<Rightarrow> ('k \<times> rat) list \<Rightarrow> 'k" where
  "argmax_from k v [] = k"
| "argmax_from k v ((k', v') # s) = (if v < v' then argmax_from k' v' s else argmax_from k v s)"

fun idxmax :: "('k \<times> rat) list \<Rightarrow> 'k result" where
  "idxmax [] = Raise ValueError"
| "idxmax ((k, v) # s) = Return (argmax_from k v s)"

text \<open>\<^verbatim>\<open>df[key]\<close> with a boolean series as key. The key is aligned with the frame's
  index first: a frame row whose label the key lacks makes the lookup raise
  \<^verbatim>\<open>IndexingError\<close> (unalignable boolean series). With default indexes the key lacks
  a label exactly when it is shorter than the frame.\<close>

definition getitem_bool :: "'r list \<Rightarrow> bool list \<Rightarrow> 'r list result" where
  "getitem_bool df key =
     (if length key < length df then Raise IndexingError
      else Return (map fst (filter snd (zip df key))))"

subsection \<open>Tables and the pipeline object\<close>

record raw_row =
  order_id :: string
  customer_id :: "string option"
  category :: "string option"
  region :: "string option"
  customer_email :: "string option"
  price :: cell
  quantity :: cell
  discount_percent :: cell
  total_amount :: cell
  order_date :: date_cell

record row = raw_row +
  price_tier :: "tier option"
  revenue :: cell
  month :: "period option"
  quarter :: "period option"
  customer_segment :: segment

record frame =
  rows :: "row list"
  data_quality_flag :: "flag option list option"

record report =
  total_records :: nat
  clean_records :: nat
  error_records :: int
  data_quality_score :: npfloat
  quality_issues :: "(string \<times> nat) list"

datatype log_msg =
    No_data_to_transform
  | Starting_data_transformation
  | Converting_data_types
  | Validating_data_quality
  | Applying_business_rules
  | Enriching_data
  | Transformation_complete nat nat
  | No_processed_data_to_analyze
  | Generating_analytical_insights
  | Analysis_complete

record pipeline =
  raw_data :: "raw_row list option"
  processed_data :: "frame option"
  data_quality_report :: "report option"
  processing_logs :: "log_msg list"

record insights =
  total_revenue :: rat
  avg_order_value :: npfloat
  total_orders :: nat
  unique_customers :: nat
  top_category :: string
  best_region :: string
  monthly_growth :: npfloat

definition init :: pipeline where
  "init = \<lparr>raw_data = None, processed_data = None, data_quality_report = None,
           processing_logs = []\<rparr>"

definition log_line :: "pipeline \<Rightarrow> log_msg \<Rightarrow> pipeline" where
  "log_line s m = s\<lparr>processing_logs := processing_logs s @ [m]\<rparr>"

subsection \<open>\<^verbatim>\<open>generate_sample_data\<close>: the amount of a generated order\<close>

text \<open>The generator computes \<^verbatim>\<open>subtotal = price * quantity\<close>,
  \<^verbatim>\<open>discount_amount = subtotal * (discount_percent / 100)\<close> and stores
  \<^verbatim>\<open>round(subtotal - discount_amount, 2)\<close>, all on Python floats.\<close>

definition generated_total_amount :: "rat \<Rightarrow> rat \<Rightarrow> rat \<Rightarrow> npfloat" where
  "generated_total_amount p q d =
     (let subtotal = f_mul (Fin p) (Fin q);
          discount_amount = f_mul subtotal (f_div (Fin d) (Fin 100))
      in py_round2 (f_sub subtotal discount_amount))"

subsection \<open>\<^verbatim>\<open>transform_data\<close>\<close>

text \<open>Step 1, the type conversions: four columns are overwritten by their coerced
  values, every other column is left as it is.\<close>

definition convert_types :: "raw_row \<Rightarrow> raw_row" where
  "convert_types r =
     r\<lparr>order_date := to_datetime (order_date r),
       price := to_numeric (price r),
       quantity := to_numeric (quantity r),
       total_amount := to_numeric (total_amount r)\<rparr>"

text \<open>Step 2, the validation. Each of the three blocks counts the rows its mask
  selects and, when the count is positive, appends a message and assigns its label to
  the selected rows by \<^verbatim>\<open>df.loc[mask, 'data_quality_flag'] = label\<close>. The assignment
  creates the column (NaN in the other rows) when it does not exist yet, and overwrites
  what an earlier block wrote in the rows it selects.\<close>

definition loc_set :: "('r \<Rightarrow> bool) \<Rightarrow> 'l \<Rightarrow> 'r list \<Rightarrow> 'l option list option \<Rightarrow> 'l option list" where
  "loc_set sel l df col =
     map (\<lambda>(r, old). if sel r then Some l else old)
         (zip df (case col of None \<Rightarrow> replicate (length df) None | Some c \<Rightarrow> c))"

definition validate_rule ::
  "(raw_row \<Rightarrow> bool) \<Rightarrow> string \<Rightarrow> flag \<Rightarrow> raw_row list
     \<Rightarrow> (string \<times> nat) list \<times> flag option list option
     \<Rightarrow> (string \<times> nat) list \<times> flag option list option" where
  "validate_rule sel name l df st =
     (let invalid = length (filter sel df)
      in if 0 < invalid
         then (fst st @ [(name, invalid)], Some (loc_set sel l df (snd st)))
         else st)"

definition email_invalid :: "raw_row \<Rightarrow> bool" where
  "email_invalid r = (\<not> str_contains_at (customer_email r))"

definition price_invalid :: "raw_row \<Rightarrow> bool" where
  "price_invalid r = le_zero (price r)"

definition quantity_invalid :: "raw_row \<Rightarrow> bool" where
  "quantity_invalid r = le_zero (quantity r)"

definition validate :: "raw_row list \<Rightarrow> (string \<times> nat) list \<times> flag option list option" where
  "validate df =
     validate_rule quantity_invalid ''Invalid quantities'' Invalid_Quantity df
       (validate_rule price_invalid ''Invalid prices'' Invalid_Price df
         (validate_rule email_invalid ''Invalid emails'' Invalid_Email df ([], None)))"

text \<open>Step 3, the business rules.\<close>

definition price_bins :: "(rat \<times> rat option \<times> tier) list" where
  "price_bins =
     [(0, Some 50, Budget), (50, Some 200, Mid_range), (200, Some 500, Premium),
      (500, None, Luxury)]"

fun to_period_M :: "date_cell \<Rightarrow> period option" where
  "to_period_M (Date y m d) = Some (y, m)"
| "to_period_M (DateText s) = None"
| "to_period_M NaT = None"

fun to_period_Q :: "date_cell \<Rightarrow> period option" where
  "to_period_Q (Date y m d) = Some (y, (m - 1) div 3 + 1)"
| "to_period_Q (DateText s) = None"
| "to_period_Q NaT = None"

definition segment_of :: "(string \<times> rat) list \<Rightarrow> string option \<Rightarrow> segment" where
  "segment_of customer_totals x =
     (let total = (case x of None \<Rightarrow> 0 | Some c \<Rightarrow> series_get customer_totals c 0)
      in if 1000 < total then VIP
         else if 300 < total then Regular
         else New)"

definition enrich_row :: "(string \<times> rat) list \<Rightarrow> raw_row \<Rightarrow> row" where
  "enrich_row customer_totals r =
     raw_row.extend r
       \<lparr>price_tier = cut price_bins (price r),
        revenue = total_amount r,
        month = to_period_M (order_date r),
        quarter = to_period_Q (order_date r),
        customer_segment = segment_of customer_totals (customer_id r)\<rparr>"

definition enrich :: "numerics \<Rightarrow> raw_row list \<Rightarrow> row list" where
  "enrich L df =
     (let customer_totals = groupby_sum L customer_id total_amount df
      in map (enrich_row customer_totals) df)"

text \<open>Step 5, the summary. \<^verbatim>\<open>df.get('data_quality_flag', pd.Series())\<close> is the flag
  column, or an empty series when no block created it; the rows whose entry is not
  \<^verbatim>\<open>notna\<close> are selected by boolean indexing and counted.\<close>

definition count_clean :: "frame \<Rightarrow> nat result" where
  "count_clean df =
     (let flags = (case data_quality_flag df of None \<Rightarrow> [] | Some c \<Rightarrow> c)
      in case getitem_bool (rows df) (map (\<lambda>f. f = None) flags) of
           Raise e \<Rightarrow> Raise e
         | Return clean \<Rightarrow> Return (length clean))"

text \<open>\<^verbatim>\<open>round((clean_records / total_records) * 100, 2)\<close>. The quotient divides two
  Python integers: a zero divisor raises \<^verbatim>\<open>ZeroDivisionError\<close>, and otherwise the result
  is the float nearest to the exact quotient. The product and the rounding are those of
  Python floats.\<close>

definition quality_score :: "nat \<Rightarrow> nat \<Rightarrow> npfloat result" where
  "quality_score n_clean n_total =
     (if n_total = 0 then Raise ZeroDivisionError
      else Return (py_round2 (f_mul (fl64 (of_nat n_clean / of_nat n_total)) (Fin 100))))"

definition transform_data :: "numerics \<Rightarrow> pipeline \<Rightarrow> frame option result \<times> pipeline" where
  "transform_data L s =
     (case raw_data s of
        None \<Rightarrow> (Return None, log_line s No_data_to_transform)
      | Some raw \<Rightarrow>
          (let s1 = log_line s Starting_data_transformation;
               n_total = length raw;
               s2 = log_line s1 Converting_data_types;
               df = map convert_types raw;
               s3 = log_line s2 Validating_data_quality;
               (issues, flags) = validate df;
               s4 = log_line s3 Applying_business_rules;
               enriched = enrich L df;
               s5 = log_line s4 Enriching_data;
               out = \<lparr>rows = enriched, data_quality_flag = flags\<rparr>
           in case count_clean out of
                Raise e \<Rightarrow> (Raise e, s5)
              | Return n_clean \<Rightarrow>
                  (case quality_score n_clean n_total of
                     Raise e \<Rightarrow> (Raise e, s5)
                   | Return score \<Rightarrow>
                       (let rep = \<lparr>total_records = n_total, clean_records = n_clean,
                                   error_records = int n_total - int n_clean,
                                   data_quality_score = score,
                                   quality_issues = issues\<rparr>;
                            s6 = s5\<lparr>data_quality_report := Some rep\<rparr>;
                            s7 = s6\<lparr>processed_data := Some out\<rparr>
                        in (Return (Some out),
                            log_line s7 (Transformation_complete n_clean n_total))))))"

subsection \<open>\<^verbatim>\<open>load_and_analyze\<close> and \<^verbatim>\<open>_calculate_monthly_growth\<close>\<close>

text \<open>The sums of the last two months are \<^verbatim>\<open>numpy.float64\<close> scalars: the difference,
  the quotient, the product with 100 and the rounding are float64 operations, and the
  division raises nothing when the previous month's sum is zero.\<close>

definition calculate_monthly_growth :: "numerics \<Rightarrow> row list \<Rightarrow> npfloat" where
  "calculate_monthly_growth L df =
     (let monthly_revenue = sort_index (groupby_sum L month revenue df);
          n = length monthly_revenue
      in if 2 \<le> n
         then (let current_month = Fin (snd (monthly_revenue ! (n - 1)));
                   previous_month = Fin (snd (monthly_revenue ! (n - 2)));
                   growth_rate =
                     f_mul (f_div (f_sub current_month previous_month) previous_month) (Fin 100)
               in np_round2 growth_rate)
         else Fin 0)"

text \<open>\<^verbatim>\<open>col.mean()\<close> divides the sum of the column by the number of values that are not
  missing, and is NaN when there is none; \<^verbatim>\<open>col.nunique()\<close> counts the distinct values
  that are not missing.\<close>

definition mean :: "numerics \<Rightarrow> cell list \<Rightarrow> npfloat" where
  "mean L col =
     (let n = length (filter notna col)
      in if n = 0 then NaNf
         else f_div (Fin (series_sum L col)) (Fin (of_nat n)))"

definition nunique :: "'a option list \<Rightarrow> nat" where
  "nunique col = length (remdups (List.map_filter (\<lambda>x. x) col))"

definition load_and_analyze :: "numerics \<Rightarrow> pipeline \<Rightarrow> insights option result \<times> pipeline" where
  "load_and_analyze L s =
     (case processed_data s of
        None \<Rightarrow> (Return None, log_line s No_processed_data_to_analyze)
      | Some out \<Rightarrow>
          (let s1 = log_line s Generating_analytical_insights;
               df = rows out
           in case idxmax (groupby_sum L category revenue df) of
                Raise e \<Rightarrow> (Raise e, s1)
              | Return top_cat \<Rightarrow>
                  (case idxmax (groupby_sum L region revenue df) of
                     Raise e \<Rightarrow> (Raise e, s1)
                   | Return best_reg \<Rightarrow>
                       (Return (Some
                          \<lparr>total_revenue = series_sum L (map revenue df),
                           avg_order_value = mean L (map revenue df),
                           total_orders = length df,
                           unique_customers = nunique (map customer_id df),
                           top_category = top_cat,
                           best_region = best_reg,
                           monthly_growth = calculate_monthly_growth L df\<rparr>),
                        log_line s1 Analysis_complete))))"

subsection \<open>Running the pipeline on a table\<close>

text \<open>Plain accumulation in float64: the cells are added one after the other, every
  partial sum rounded to float64, missing values skipped. It is one way the library may
  add a column up. On the tables below, whose amounts are small whole numbers, every
  partial sum is exact, so any other order of the additions gives the same sums.\<close>

definition accumulate_float64 :: "cell list \<Rightarrow> rat" where
  "accumulate_float64 col =
     foldl (\<lambda>acc c. case c of Num x \<Rightarrow> nearest_float64 (acc + x) | Text s \<Rightarrow> acc | NaN \<Rightarrow> acc)
       0 col"

definition float64_sums :: numerics where
  "float64_sums = \<lparr>series_sum = accumulate_float64, group_sum = accumulate_float64\<rparr>"

text \<open>A fresh pipeline whose raw table is \<open>raw\<close>, transformed; and a pipeline that holds
  the processed table \<open>out\<close>, analysed.\<close>

definition run_transform :: "raw_row list \<Rightarrow> frame option result \<times> pipeline" where
  "run_transform raw = transform_data float64_sums (init\<lparr>raw_data := Some raw\<rparr>)"

definition run_analyze :: "frame \<Rightarrow> insights option result \<times> pipeline" where
  "run_analyze out = load_and_analyze float64_sums (init\<lparr>processed_data := Some out\<rparr>)"

text \<open>An order of customer \<open>c\<close> with e-mail \<open>e\<close>, price \<open>p\<close>, quantity \<open>q\<close>, discount
  \<open>d\<close>, stored amount \<open>t\<close> and date \<open>dt\<close>, for the concrete tables below.\<close>

definition order :: "string \<Rightarrow> string \<Rightarrow> cell \<Rightarrow> cell \<Rightarrow> cell \<Rightarrow> cell \<Rightarrow> date_cell \<Rightarrow> raw_row" where
  "order c e p q d t dt =
     \<lparr>order_id = ''ORD-1000'', customer_id = Some c, category = Some ''Books'',
      region = Some ''Europe'', customer_email = Some e, price = p, quantity = q,
      discount_percent = d, total_amount = t, order_date = dt\<rparr>"

subsection \<open>Closed forms used in the proofs\<close>

text \<open>The flag a row ends with after the three validation blocks have run in turn:
  each block overwrites the flag of the rows it selects, so a later block prevails.\<close>

definition last_match :: "raw_row \<Rightarrow> flag option" where
  "last_match r =
     (if quantity_invalid r then Some Invalid_Quantity
      else if price_invalid r then Some Invalid_Price
      else if email_invalid r then Some Invalid_Email
      else None)"

text \<open>A column that exists only when some row has an entry.\<close>

definition col_of :: "('r \<Rightarrow> 'l option) \<Rightarrow> 'r list \<Rightarrow> 'l option list option" where
  "col_of f df = (if \<exists>r\<in>set df. f r \<noteq> None then Some (map f df) else None)"

definition some_flagged :: "raw_row list \<Rightarrow> bool" where
  "some_flagged raw = (\<exists>r\<in>set raw. last_match (convert_types r) \<noteq> None)"

definition transformed :: "numerics \<Rightarrow> raw_row list \<Rightarrow> frame" where
  "transformed L raw =
     \<lparr>rows = enrich L (map convert_types raw),
      data_quality_flag = Some (map last_match (map convert_types raw))\<rparr>"

definition reported :: "raw_row list \<Rightarrow> report" where
  "reported raw =
     (let df = map convert_types raw;
          n_clean = length (filter (\<lambda>r. last_match r = None) df)
      in \<lparr>total_records = length raw, clean_records = n_clean,
          error_records = int (length raw) - int n_clean,
          data_quality_score =
            py_round2 (f_mul (fl64 (of_nat n_clean / of_nat (length raw))) (Fin 100)),
          quality_issues = fst (validate df)\<rparr>)"

text \<open>The pipeline after the five log lines that precede the summary.\<close>

definition entered :: "pipeline \<Rightarrow> pipeline" where
  "entered s =
     log_line (log_line (log_line (log_line (log_line s Starting_data_transformation)
       Converting_data_types) Validating_data_quality) Applying_business_rules) Enriching_data"

text \<open>The revenue of one month as the code has it: the sum the library computes from
  the \<^verbatim>\<open>revenue\<close> cells of the rows of that month, in row order. The months of a table
  are those of its rows with a date.\<close>

definition revenue_of_month :: "numerics \<Rightarrow> row list \<Rightarrow> period \<Rightarrow> rat" where
  "revenue_of_month L df m = group_sum L (map revenue (filter (\<lambda>r. month r = Some m) df))"

definition months_of :: "row list \<Rightarrow> period list" where
  "months_of df = List.map_filter month df"

text \<open>The total of a customer as the code has it: the sum the library computes from the
  \<^verbatim>\<open>total_amount\<close> cells of the customer's rows, in row order.\<close>

definition customer_total :: "numerics \<Rightarrow> row list \<Rightarrow> string \<Rightarrow> rat" where
  "customer_total L df c =
     group_sum L (map total_amount (filter (\<lambda>r. customer_id r = Some c) df))"

text \<open>The percent change of a sum \<open>cur\<close> over a sum \<open>prev\<close>, in float64.\<close>

definition percent_change :: "rat \<Rightarrow> rat \<Rightarrow> npfloat" where
  "percent_change cur prev = f_mul (f_div (f_sub (Fin cur) (Fin prev)) (Fin prev)) (Fin 100)"

section \<open>Properties\<close>

subsection \<open>The validation blocks\<close>

lemma zip_map_same:
  "map (\<lambda>(r, old). if sel r then Some l else old) (zip df (map g df)) =
     map (\<lambda>r. if sel r then Some l else g r) df"
  by (induction df) auto

lemma loc_set_col_of:
  "loc_set sel l df (col_of f df) = map (\<lambda>r. if sel r then Some l else f r) df"
proof (cases "\<exists>r\<in>set df. f r \<noteq> None")
  case True
  then show ?thesis
    by (simp add: loc_set_def col_of_def zip_map_same)
next
  case False
  then have "replicate (length df) None = map f df"
    by (induction df) auto
  with False show ?thesis
    by (simp add: loc_set_def col_of_def zip_map_same)
qed

lemma validate_rule_col_of:
  "snd (validate_rule sel name l df (is, col_of f df)) =
     col_of (\<lambda>r. if sel r then Some l else f r) df"
proof (cases "\<exists>r\<in>set df. sel r")
  case True
  then have "filter sel df \<noteq> []"
    by (simp add: filter_empty_conv)
  moreover from True have "\<exists>r\<in>set df. (if sel r then Some l else f r) \<noteq> None"
    by auto
  ultimately show ?thesis
    by (simp add: validate_rule_def Let_def loc_set_col_of
        col_of_def [of "\<lambda>r. if sel r then Some l else f r"])
next
  case False
  then have "filter sel df = []"
    by (simp add: filter_empty_conv)
  moreover from False have "col_of (\<lambda>r. if sel r then Some l else f r) df = col_of f df"
    by (simp add: col_of_def cong: map_cong)
  ultimately show ?thesis
    by (simp add: validate_rule_def Let_def)
qed

lemma validate_rule_fst:
  "fst (validate_rule sel name l df st) =
     fst st @ filter (\<lambda>(n, c). 0 < c) [(name, length (filter sel df))]"
  by (simp add: validate_rule_def Let_def)

lemma snd_validate: "snd (validate df) = col_of last_match df"
proof -
  let ?e = "validate_rule email_invalid ''Invalid emails'' Invalid_Email df ([], None)"
  let ?p = "validate_rule price_invalid ''Invalid prices'' Invalid_Price df ?e"
  let ?fe = "\<lambda>r. if email_invalid r then Some Invalid_Email else None"
  let ?fp = "\<lambda>r. if price_invalid r then Some Invalid_Price else ?fe r"
  have n: "col_of (\<lambda>r. None) df = (None :: flag option list option)"
    by (simp add: col_of_def)
  have "snd ?e = col_of ?fe df"
    using validate_rule_col_of [of email_invalid "''Invalid emails''" Invalid_Email df "[]" "\<lambda>r. None"]
    by (simp only: n)
  then have e: "?e = (fst ?e, col_of ?fe df)"
    by (simp add: prod_eq_iff)
  have "snd ?p = col_of ?fp df"
    by (subst e) (rule validate_rule_col_of)
  then have p: "?p = (fst ?p, col_of ?fp df)"
    by (simp add: prod_eq_iff)
  have "snd (validate df) =
      col_of (\<lambda>r. if quantity_invalid r then Some Invalid_Quantity else ?fp r) df"
    unfolding validate_def by (subst p) (rule validate_rule_col_of)
  also have "(\<lambda>r. if quantity_invalid r then Some Invalid_Quantity else ?fp r) = last_match"
    by (rule ext) (simp add: last_match_def)
  finally show ?thesis .
qed

lemma fst_validate:
  "fst (validate df) =
     filter (\<lambda>(n, c). 0 < c)
       [(''Invalid emails'', length (filter email_invalid df)),
        (''Invalid prices'', length (filter price_invalid df)),
        (''Invalid quantities'', length (filter quantity_invalid df))]"
  unfolding validate_def by (simp add: validate_rule_fst)

subsection \<open>The summary and the three ways \<^verbatim>\<open>transform_data\<close> ends\<close>

lemma length_getitem:
  "length xs = length ys \<Longrightarrow> length (filter snd (zip xs (map g ys))) = length (filter g ys)"
  by (induction xs ys rule: list_induct2) auto

lemma length_enrich: "length (enrich L df) = length df"
  by (simp add: enrich_def)

lemma count_clean_absent:
  "count_clean \<lparr>rows = rs, data_quality_flag = None\<rparr> =
     (if rs = [] then Return 0 else Raise IndexingError)"
  by (simp add: count_clean_def getitem_bool_def)

lemma count_clean_present:
  "length rs = length df \<Longrightarrow>
   count_clean \<lparr>rows = rs, data_quality_flag = Some (map f df)\<rparr> =
     Return (length (filter (\<lambda>r. f r = None) df))"
  by (simp add: count_clean_def getitem_bool_def length_getitem comp_def)

lemma transform_data_none:
  "raw_data s = None \<Longrightarrow> transform_data L s = (Return None, log_line s No_data_to_transform)"
  by (simp add: transform_data_def)

lemma transform_data_flagged:
  assumes "raw_data s = Some raw" and "some_flagged raw"
  shows "transform_data L s =
     (Return (Some (transformed L raw)),
      log_line ((entered s)\<lparr>data_quality_report := Some (reported raw),
                            processed_data := Some (transformed L raw)\<rparr>)
        (Transformation_complete (clean_records (reported raw)) (length raw)))"
proof -
  let ?df = "map convert_types raw"
  from assms(2) have ex: "\<exists>r\<in>set ?df. last_match r \<noteq> None"
    by (auto simp: some_flagged_def)
  then have "raw \<noteq> []" by auto
  moreover from ex have "snd (validate ?df) = Some (map last_match ?df)"
    by (simp only: snd_validate col_of_def if_True)
  ultimately show ?thesis
    using assms(1)
    by (simp add: transform_data_def Let_def case_prod_beta count_clean_present length_enrich
        quality_score_def transformed_def reported_def entered_def comp_def)
qed

lemma transform_data_unflagged:
  assumes "raw_data s = Some raw" and "\<not> some_flagged raw"
  shows "transform_data L s =
     (Raise (if raw = [] then ZeroDivisionError else IndexingError), entered s)"
proof -
  let ?df = "map convert_types raw"
  from assms(2) have "\<not> (\<exists>r\<in>set ?df. last_match r \<noteq> None)"
    by (auto simp: some_flagged_def)
  then have "snd (validate ?df) = None"
    by (simp only: snd_validate col_of_def if_False)
  then show ?thesis
    using assms(1)
    by (simp add: transform_data_def Let_def case_prod_beta count_clean_absent enrich_def
        quality_score_def entered_def)
qed

lemma raw_data_entered: "raw_data (entered s) = raw_data s"
  by (simp add: entered_def log_line_def)

lemma report_entered: "data_quality_report (entered s) = data_quality_report s"
  by (simp add: entered_def log_line_def)

lemma processed_entered: "processed_data (entered s) = processed_data s"
  by (simp add: entered_def log_line_def)

lemma transform_data_returns:
  assumes "raw_data s = Some raw" and "fst (transform_data L s) = Return (Some out)"
  shows "some_flagged raw" and "out = transformed L raw"
    and "data_quality_report (snd (transform_data L s)) = Some (reported raw)"
    and "processed_data (snd (transform_data L s)) = Some out"
proof -
  show f: "some_flagged raw"
    using assms transform_data_unflagged [of s raw] by (cases "some_flagged raw") auto
  from assms f show "out = transformed L raw"
    by (simp add: transform_data_flagged)
  from assms f show "data_quality_report (snd (transform_data L s)) = Some (reported raw)"
    by (simp add: transform_data_flagged log_line_def)
  from assms f show "processed_data (snd (transform_data L s)) = Some out"
    by (simp add: transform_data_flagged log_line_def)
qed

lemma enrich_row_raw [simp]:
  "customer_id (enrich_row t r) = customer_id r"
  "customer_email (enrich_row t r) = customer_email r"
  "price (enrich_row t r) = price r"
  "quantity (enrich_row t r) = quantity r"
  "discount_percent (enrich_row t r) = discount_percent r"
  "total_amount (enrich_row t r) = total_amount r"
  "order_date (enrich_row t r) = order_date r"
  by (simp_all add: enrich_row_def raw_row.defs)

lemma enrich_row_new [simp]:
  "price_tier (enrich_row t r) = cut price_bins (price r)"
  "revenue (enrich_row t r) = total_amount r"
  "month (enrich_row t r) = to_period_M (order_date r)"
  "customer_segment (enrich_row t r) = segment_of t (customer_id r)"
  by (simp_all add: enrich_row_def raw_row.defs)

lemma convert_types_fields [simp]:
  "customer_id (convert_types r) = customer_id r"
  "customer_email (convert_types r) = customer_email r"
  "price (convert_types r) = to_numeric (price r)"
  "quantity (convert_types r) = to_numeric (quantity r)"
  "discount_percent (convert_types r) = discount_percent r"
  "total_amount (convert_types r) = to_numeric (total_amount r)"
  "order_date (convert_types r) = to_datetime (order_date r)"
  by (simp_all add: convert_types_def)

subsection \<open>Grouped sums\<close>

lemma map_of_tabulate:
  "map_of (map (\<lambda>k. (k, f k)) ks) c = (if c \<in> set ks then Some (f c) else None)"
  by (induction ks) auto

lemma set_map_filter_key: "(c \<in> set (List.map_filter key df)) = (\<exists>r\<in>set df. key r = Some c)"
  by (induction df) (auto split: option.splits)

lemma series_get_groupby_sum:
  "\<exists>r\<in>set df. key r = Some c \<Longrightarrow>
   series_get (groupby_sum L key val df) c d =
     group_sum L (map val (filter (\<lambda>r. key r = Some c) df))"
  by (simp add: series_get_def groupby_sum_def map_of_tabulate set_map_filter_key)

lemma customer_total_enrich:
  "customer_total L (enrich L' df) c =
     group_sum L (map total_amount (filter (\<lambda>r. customer_id r = Some c) df))"
  by (simp add: customer_total_def enrich_def filter_map comp_def)

lemma segment_enrich:
  assumes "r \<in> set (enrich L df)"
  shows "customer_segment r =
     (case customer_id r of
        None \<Rightarrow> New
      | Some c \<Rightarrow>
          if 1000 < customer_total L (enrich L df) c then VIP
          else if 300 < customer_total L (enrich L df) c then Regular
          else New)"
proof -
  let ?t = "groupby_sum L customer_id total_amount df"
  from assms obtain r0 where r0: "r0 \<in> set df" "r = enrich_row ?t r0"
    by (auto simp: enrich_def Let_def)
  show ?thesis
  proof (cases "customer_id r0")
    case None
    with r0 show ?thesis
      by (simp add: segment_of_def)
  next
    case (Some c)
    with r0(1) have "\<exists>r\<in>set df. customer_id r = Some c"
      by blast
    then have "series_get ?t c 0 = customer_total L (enrich L df) c"
      by (simp add: series_get_groupby_sum customer_total_enrich)
    with Some r0(2) show ?thesis
      by (simp add: segment_of_def)
  qed
qed

subsection \<open>Positions in the processed table\<close>

lemma rows_transformed_nth:
  "i < length raw \<Longrightarrow>
   rows (transformed L raw) ! i =
     enrich_row (groupby_sum L customer_id total_amount (map convert_types raw))
       (convert_types (raw ! i))"
  by (simp add: transformed_def enrich_def)


lemma cut_price_bins:
  "cut price_bins c =
     (case c of
        Num x \<Rightarrow>
          if 0 < x \<and> x \<le> 50 then Some Budget
          else if 50 < x \<and> x \<le> 200 then Some Mid_range
          else if 200 < x \<and> x \<le> 500 then Some Premium
          else if 500 < x then Some Luxury
          else None
      | Text t \<Rightarrow> None
      | NaN \<Rightarrow> None)"
  by (cases c) (auto simp: price_bins_def)

subsection \<open>The counts of a stored report\<close>

lemma stored_report_counts:
  assumes "raw_data s = Some raw" and "fst (transform_data L s) = Return (Some out)"
    and "data_quality_report (snd (transform_data L s)) = Some rep"
  shows "total_records rep = length raw"
    and "data_quality_flag out = Some col \<Longrightarrow>
           clean_records rep = length (filter (\<lambda>f. f = None) col)"
    and "error_records rep = int (total_records rep) - int (clean_records rep)"
    and "int (clean_records rep) + error_records rep = int (total_records rep)"
proof -
  from assms(1,2) have o: "out = transformed L raw"
    by (rule transform_data_returns)
  from assms(1,2) have "data_quality_report (snd (transform_data L s)) = Some (reported raw)"
    by (rule transform_data_returns)
  with assms(3) have r: "rep = reported raw"
    by simp
  show "total_records rep = length raw"
    by (simp add: r reported_def Let_def)
  show "clean_records rep = length (filter (\<lambda>f. f = None) col)"
    if "data_quality_flag out = Some col"
    using that by (auto simp: o r reported_def transformed_def Let_def filter_map comp_def)
  show "error_records rep = int (total_records rep) - int (clean_records rep)"
    by (simp add: r reported_def Let_def)
  then show "int (clean_records rep) + error_records rep = int (total_records rep)"
    by simp
qed

subsection \<open>Rounding\<close>

lemma round_half_even_near: "\<bar>of_int (round_half_even x) - x\<bar> \<le> 1 / 2"
proof -
  have "of_int \<lfloor>x\<rfloor> \<le> x" and "x < of_int \<lfloor>x\<rfloor> + 1"
    by linarith+
  then show ?thesis
    by (auto simp: round_half_even_def Let_def)
qed

lemma round_half_even_tie:
  "\<bar>of_int (round_half_even x) - x\<bar> = 1 / 2 \<Longrightarrow> even (round_half_even x)"
proof -
  assume a: "\<bar>of_int (round_half_even x) - x\<bar> = 1 / 2"
  have "of_int \<lfloor>x\<rfloor> \<le> x" and "x < of_int \<lfloor>x\<rfloor> + 1"
    by linarith+
  with a show ?thesis
    by (auto simp: round_half_even_def Let_def split: if_splits)
qed

lemma np_round2_Fin:
  "f_mul x (Fin 100) = Fin y \<Longrightarrow>
   np_round2 x = f_div (Fin (of_int (round_half_even y))) (Fin 100)"
  by (simp add: np_round2_def)

lemma np_round2_not_Fin:
  "\<forall>y. f_mul x (Fin 100) \<noteq> Fin y \<Longrightarrow> np_round2 x = f_mul x (Fin 100)"
  by (cases "f_mul x (Fin 100)") (simp_all add: np_round2_def)

lemma nearest_int_unique:
  fixes y :: rat
  assumes "\<bar>of_int k - y\<bar> \<le> 1 / 2" and "of_int k0 - 1 / 2 < y" and "y < of_int k0 + 1 / 2"
  shows "k = k0"
proof -
  from assms have "\<bar>(of_int k :: rat) - of_int k0\<bar> < 1"
    by linarith
  then have "\<bar>(of_int (k - k0) :: rat)\<bar> < of_int 1"
    by simp
  then have "\<bar>k - k0\<bar> < 1"
    by (simp only: of_int_abs [symmetric] of_int_less_iff)
  then show ?thesis
    by simp
qed

lemma f_div_zero_not_Fin: "f_div a (Fin 0) \<noteq> Fin x"
  by (cases a) simp_all

lemma np_round2_div_zero:
  "np_round2 (f_mul (f_div a (Fin 0)) (Fin 100)) = f_div a (Fin 0)"
  by (cases a) (simp_all add: np_round2_def)

lemma fl64_not_NaNf: "fl64 x \<noteq> NaNf"
  by (simp add: fl64_def Let_def)

subsection \<open>Float64 arithmetic on sample values\<close>

lemma float64_samples:
  "fl64 (1 / 10) = Fin (3602879701896397 / 36028797018963968)"
  "percent_change 67 160 = Fin (- 8180366510653441 / 140737488355328)"
  "np_round2 (percent_change 67 160) = fl64 (- 5813 / 100)"
  "quality_score 23 160 = Return (fl64 (1437 / 100))"
  "generated_total_amount 5 1 (1 / 2) = fl64 (497 / 100)"
  by code_simp+

subsection \<open>The last two periods of a sorted index\<close>

lemma last_two_sorted:
  fixes ks :: "'a::linorder list"
  assumes "sorted ks" and "distinct ks" and "m1 \<in> set ks" and "m2 \<in> set ks" and "m1 < m2"
    and "\<forall>m\<in>set ks. m \<le> m1 \<or> m = m2"
  shows "2 \<le> length ks" and "ks ! (length ks - 1) = m2" and "ks ! (length ks - 2) = m1"
proof -
  let ?n = "length ks"
  from assms(3) obtain i where i: "i < ?n" "ks ! i = m1"
    by (auto simp: in_set_conv_nth)
  from assms(4) obtain j where j: "j < ?n" "ks ! j = m2"
    by (auto simp: in_set_conv_nth)
  have ij: "i < j"
  proof (rule ccontr)
    assume "\<not> i < j"
    then have "j \<le> i" by simp
    with assms(1) i(1) have "ks ! j \<le> ks ! i"
      by (simp add: sorted_nth_mono)
    with i j assms(5) show False by simp
  qed
  with j show n2: "2 \<le> ?n" by simp
  have "ks ! j \<le> ks ! (?n - 1)"
    using assms(1) j(1) by (intro sorted_nth_mono) simp_all
  moreover have "ks ! (?n - 1) \<in> set ks"
    using j(1) by (intro nth_mem) simp
  ultimately show l: "ks ! (?n - 1) = m2"
    using assms(5,6) j(2) by force
  have jn: "j = ?n - 1"
  proof -
    from l j(2) have "ks ! j = ks ! (?n - 1)"
      by simp
    moreover from j(1) have "?n - 1 < ?n"
      by simp
    ultimately show ?thesis
      using assms(2) j(1) by (simp only: nth_eq_iff_index_eq)
  qed
  have "ks ! (?n - 2) \<noteq> ks ! (?n - 1)"
    using assms(2) n2 by (simp add: nth_eq_iff_index_eq)
  moreover have "ks ! (?n - 2) \<in> set ks"
    using n2 by (intro nth_mem) simp
  ultimately have "ks ! (?n - 2) \<le> m1"
    using assms(6) l by force
  moreover have "ks ! i \<le> ks ! (?n - 2)"
    using assms(1) ij jn n2 by (intro sorted_nth_mono) simp_all
  ultimately show "ks ! (?n - 2) = m1"
    using i(2) by simp
qed

lemma map_fst_groupby_sum:
  "map fst (groupby_sum L key val df) = sort (remdups (List.map_filter key df))"
  by (simp add: groupby_sum_def comp_def)

lemma sort_index_groupby_sum:
  "sort_index (groupby_sum L key val df) = groupby_sum L key val df"
  unfolding sort_index_def
  by (rule sort_key_id_if_sorted) (simp add: map_fst_groupby_sum)

lemma length_groupby_sum:
  "length (groupby_sum L key val df) = card (set (List.map_filter key df))"
  by (simp add: groupby_sum_def length_remdups_card_conv)

lemma groupby_sum_nth:
  "i < length (groupby_sum L key val df) \<Longrightarrow>
   snd (groupby_sum L key val df ! i) =
     group_sum L (map val
       (filter (\<lambda>r. key r = Some (map fst (groupby_sum L key val df) ! i)) df))"
  by (simp add: groupby_sum_def)

lemma monthly_revenue_last_two:
  assumes "m1 \<in> set (months_of df)" and "m2 \<in> set (months_of df)" and "m1 < m2"
    and "\<forall>m\<in>set (months_of df). m \<le> m1 \<or> m = m2"
  shows "2 \<le> length (groupby_sum L month revenue df)"
    and "snd (groupby_sum L month revenue df ! (length (groupby_sum L month revenue df) - 1))
           = revenue_of_month L df m2"
    and "snd (groupby_sum L month revenue df ! (length (groupby_sum L month revenue df) - 2))
           = revenue_of_month L df m1"
proof -
  let ?g = "groupby_sum L month revenue df"
  let ?ks = "map fst ?g"
  have ks: "?ks = sort (remdups (months_of df))"
    by (simp add: map_fst_groupby_sum months_of_def)
  then have "sorted ?ks" "distinct ?ks" "set ?ks = set (months_of df)"
    by simp_all
  with assms have n: "2 \<le> length ?ks" and l: "?ks ! (length ?ks - 1) = m2"
    and p: "?ks ! (length ?ks - 2) = m1"
    using last_two_sorted [of ?ks m1 m2] by simp_all
  from n show n': "2 \<le> length ?g" by simp
  from n' have "snd (?g ! (length ?g - 1)) =
      group_sum L (map revenue
        (filter (\<lambda>r. month r = Some (?ks ! (length ?g - 1))) df))"
    by (intro groupby_sum_nth) simp
  with l show "snd (?g ! (length ?g - 1)) = revenue_of_month L df m2"
    by (simp add: revenue_of_month_def)
  from n' have "snd (?g ! (length ?g - 2)) =
      group_sum L (map revenue
        (filter (\<lambda>r. month r = Some (?ks ! (length ?g - 2))) df))"
    by (intro groupby_sum_nth) simp
  with p show "snd (?g ! (length ?g - 2)) = revenue_of_month L df m1"
    by (simp add: revenue_of_month_def)
qed

lemma calculate_monthly_growth_last_two:
  assumes "m1 \<in> set (months_of df)" and "m2 \<in> set (months_of df)" and "m1 < m2"
    and "\<forall>m\<in>set (months_of df). m \<le> m1 \<or> m = m2"
  shows "calculate_monthly_growth L df =
     np_round2 (percent_change (revenue_of_month L df m2) (revenue_of_month L df m1))"
  using monthly_revenue_last_two [OF assms, of L]
  by (simp add: calculate_monthly_growth_def sort_index_groupby_sum Let_def percent_change_def)

lemma calculate_monthly_growth_few:
  "card (set (months_of df)) < 2 \<Longrightarrow> calculate_monthly_growth L df = Fin 0"
  by (simp add: calculate_monthly_growth_def sort_index_groupby_sum Let_def
      length_groupby_sum months_of_def)

section \<open>The claims\<close>




text \<open>
  C2, as amended. \<^verbatim>\<open>price_tier\<close> is computed from the coerced price alone, by brackets
  that are open on the left and closed on the right: Budget (0,50], Mid-range (50,200],
  Premium (200,500], Luxury (500,\<infinity>). A price that is at most 0 or not a number has no
  tier. So a price of 50 is Budget, a price of 500 is Premium, and a price of 0 has no
  tier.
\<close>

theorem price_tier_right_closed:
  assumes "raw_data s = Some raw" and "fst (transform_data L s) = Return (Some out)"
    and "i < length raw"
  shows "price_tier (rows out ! i) =
     (case to_numeric (price (raw ! i)) of
        Num x \<Rightarrow>
          if 0 < x \<and> x \<le> 50 then Some Budget
          else if 50 < x \<and> x \<le> 200 then Some Mid_range
          else if 200 < x \<and> x \<le> 500 then Some Premium
          else if 500 < x then Some Luxury
          else None
      | Text t \<Rightarrow> None
      | NaN \<Rightarrow> None)"
proof -
  from assms(1,2) have "out = transformed L raw"
    by (rule transform_data_returns)
  with assms(3) show ?thesis
    by (simp add: rows_transformed_nth cut_price_bins)
qed

text \<open>Three orders priced 0, 50 and 500: no tier, Budget, Premium.\<close>

theorem price_tier_boundaries_counterexample:
  "map_option (map price_tier \<circ> rows)
     (processed_data (snd (run_transform
        [order ''CUST-1'' ''a@b.com'' (Num 0) (Num 1) (Num 0) (Num 0) (Date 2024 1 15),
         order ''CUST-2'' ''c@d.com'' (Num 50) (Num 1) (Num 0) (Num 50) (Date 2024 1 16),
         order ''CUST-3'' ''e@f.com'' (Num 500) (Num 1) (Num 0) (Num 500) (Date 2024 1 17)])))
   = Some [None, Some Budget, Some Premium]"
  by code_simp

theorem price_tier_right_closed_witness:
  "raw_data (init\<lparr>raw_data := Some
        [order ''CUST-1'' ''a@b.com'' (Num 0) (Num 1) (Num 0) (Num 0) (Date 2024 1 15),
         order ''CUST-2'' ''c@d.com'' (Num 200) (Num 1) (Num 0) (Num 200) (Date 2024 1 16)]\<rparr>)
     = Some [order ''CUST-1'' ''a@b.com'' (Num 0) (Num 1) (Num 0) (Num 0) (Date 2024 1 15),
             order ''CUST-2'' ''c@d.com'' (Num 200) (Num 1) (Num 0) (Num 200) (Date 2024 1 16)]
   \<and> fst (transform_data float64_sums (init\<lparr>raw_data := Some
        [order ''CUST-1'' ''a@b.com'' (Num 0) (Num 1) (Num 0) (Num 0) (Date 2024 1 15),
         order ''CUST-2'' ''c@d.com'' (Num 200) (Num 1) (Num 0) (Num 200) (Date 2024 1 16)]\<rparr>))
     = Return (Some (transformed float64_sums
        [order ''CUST-1'' ''a@b.com'' (Num 0) (Num 1) (Num 0) (Num 0) (Date 2024 1 15),
         order ''CUST-2'' ''c@d.com'' (Num 200) (Num 1) (Num 0) (Num 200) (Date 2024 1 16)]))
   \<and> (1::nat) < 2
   \<and> price_tier (rows (transformed float64_sums
        [order ''CUST-1'' ''a@b.com'' (Num 0) (Num 1) (Num 0) (Num 0) (Date 2024 1 15),
         order ''CUST-2'' ''c@d.com'' (Num 200) (Num 1) (Num 0) (Num 200) (Date 2024 1 16)]) ! 1)
     = Some Mid_range"
proof -
  let ?raw = "[order ''CUST-1'' ''a@b.com'' (Num 0) (Num 1) (Num 0) (Num 0) (Date 2024 1 15),
               order ''CUST-2'' ''c@d.com'' (Num 200) (Num 1) (Num 0) (Num 200) (Date 2024 1 16)]"
  let ?s = "init\<lparr>raw_data := Some ?raw\<rparr>"
  have h1: "raw_data ?s = Some ?raw"
    by simp
  have h2: "fst (transform_data float64_sums ?s) = Return (Some (transformed float64_sums ?raw))"
    by code_simp
  have h3: "1 < length ?raw"
    by simp
  from price_tier_right_closed [OF h1 h2 h3]
  have "price_tier (rows (transformed float64_sums ?raw) ! 1) = Some Mid_range"
    by (simp add: order_def)
  with h1 h2 show ?thesis
    by simp
qed

text \<open>
  C3, as amended. Customer segmentation over one Transform run assigns each customer a
  segment from that customer's summed \<^verbatim>\<open>total_amount\<close> across the whole table, the
  sum being the number the code computes for the customer's group: VIP when the sum
  exceeds 1000, Regular when it exceeds 300, New otherwise. A customer whose sum is
  exactly 1000 is Regular, not VIP; a customer whose sum is exactly 300 is New, not
  Regular; and every row sharing a \<^verbatim>\<open>customer_id\<close> carries the identical segment.
\<close>

theorem customer_segment_by_total:
  assumes "raw_data s = Some raw" and "fst (transform_data L s) = Return (Some out)"
  shows "(\<forall>r\<in>set (rows out). \<forall>c. customer_id r = Some c \<longrightarrow>
            customer_segment r =
              (if 1000 < customer_total L (rows out) c then VIP
               else if 300 < customer_total L (rows out) c then Regular
               else New))
       \<and> (\<forall>r\<in>set (rows out). \<forall>c. customer_id r = Some c \<longrightarrow>
            customer_total L (rows out) c = 1000 \<longrightarrow> customer_segment r = Regular)
       \<and> (\<forall>r\<in>set (rows out). \<forall>c. customer_id r = Some c \<longrightarrow>
            customer_total L (rows out) c = 300 \<longrightarrow> customer_segment r = New)
       \<and> (\<forall>r\<in>set (rows out). \<forall>r'\<in>set (rows out).
            customer_id r = customer_id r' \<longrightarrow> customer_segment r = customer_segment r')"
proof -
  from assms have "out = transformed L raw"
    by (rule transform_data_returns)
  then have rows: "rows out = enrich L (map convert_types raw)"
    by (simp add: transformed_def)
  have seg: "customer_segment r =
     (case customer_id r of
        None \<Rightarrow> New
      | Some c \<Rightarrow>
          if 1000 < customer_total L (rows out) c then VIP
          else if 300 < customer_total L (rows out) c then Regular
          else New)" if "r \<in> set (rows out)" for r
    using that unfolding rows by (rule segment_enrich)
  have a: "\<forall>r\<in>set (rows out). \<forall>c. customer_id r = Some c \<longrightarrow>
            customer_segment r =
              (if 1000 < customer_total L (rows out) c then VIP
               else if 300 < customer_total L (rows out) c then Regular
               else New)"
    by (simp add: seg)
  have b: "\<forall>r\<in>set (rows out). \<forall>c. customer_id r = Some c \<longrightarrow>
            customer_total L (rows out) c = 1000 \<longrightarrow> customer_segment r = Regular"
    by (simp add: seg)
  have c: "\<forall>r\<in>set (rows out). \<forall>c. customer_id r = Some c \<longrightarrow>
            customer_total L (rows out) c = 300 \<longrightarrow> customer_segment r = New"
    by (simp add: seg)
  have d: "\<forall>r\<in>set (rows out). \<forall>r'\<in>set (rows out).
            customer_id r = customer_id r' \<longrightarrow> customer_segment r = customer_segment r'"
    by (simp add: seg)
  from a b c d show ?thesis
    by (intro conjI)
qed

text \<open>A customer with two orders of 100 and 200, 300 in all, is New in both rows.\<close>

theorem customer_segment_300_counterexample:
  "processed_data (snd (run_transform
        [order ''CUST-7'' ''no-at-sign'' (Num 100) (Num 1) (Num 0) (Num 100) (Date 2024 1 15),
         order ''CUST-7'' ''a@b.com'' (Num 200) (Num 1) (Num 0) (Num 200) (Date 2024 2 16)]))
     = Some (transformed float64_sums
        [order ''CUST-7'' ''no-at-sign'' (Num 100) (Num 1) (Num 0) (Num 100) (Date 2024 1 15),
         order ''CUST-7'' ''a@b.com'' (Num 200) (Num 1) (Num 0) (Num 200) (Date 2024 2 16)])
   \<and> customer_total float64_sums (rows (transformed float64_sums
        [order ''CUST-7'' ''no-at-sign'' (Num 100) (Num 1) (Num 0) (Num 100) (Date 2024 1 15),
         order ''CUST-7'' ''a@b.com'' (Num 200) (Num 1) (Num 0) (Num 200) (Date 2024 2 16)]))
        ''CUST-7'' = 300
   \<and> map customer_segment (rows (transformed float64_sums
        [order ''CUST-7'' ''no-at-sign'' (Num 100) (Num 1) (Num 0) (Num 100) (Date 2024 1 15),
         order ''CUST-7'' ''a@b.com'' (Num 200) (Num 1) (Num 0) (Num 200) (Date 2024 2 16)]))
     = [New, New]"
  by code_simp

theorem customer_segment_by_total_witness:
  "raw_data (init\<lparr>raw_data := Some
        [order ''CUST-7'' ''no-at-sign'' (Num 100) (Num 4) (Num 0) (Num 400) (Date 2024 1 15),
         order ''CUST-7'' ''a@b.com'' (Num 200) (Num 3) (Num 0) (Num 600) (Date 2024 2 16)]\<rparr>)
     = Some [order ''CUST-7'' ''no-at-sign'' (Num 100) (Num 4) (Num 0) (Num 400) (Date 2024 1 15),
             order ''CUST-7'' ''a@b.com'' (Num 200) (Num 3) (Num 0) (Num 600) (Date 2024 2 16)]
   \<and> fst (transform_data float64_sums (init\<lparr>raw_data := Some
        [order ''CUST-7'' ''no-at-sign'' (Num 100) (Num 4) (Num 0) (Num 400) (Date 2024 1 15),
         order ''CUST-7'' ''a@b.com'' (Num 200) (Num 3) (Num 0) (Num 600) (Date 2024 2 16)]\<rparr>))
     = Return (Some (transformed float64_sums
        [order ''CUST-7'' ''no-at-sign'' (Num 100) (Num 4) (Num 0) (Num 400) (Date 2024 1 15),
         order ''CUST-7'' ''a@b.com'' (Num 200) (Num 3) (Num 0) (Num 600) (Date 2024 2 16)]))
   \<and> customer_total float64_sums (rows (transformed float64_sums
        [order ''CUST-7'' ''no-at-sign'' (Num 100) (Num 4) (Num 0) (Num 400) (Date 2024 1 15),
         order ''CUST-7'' ''a@b.com'' (Num 200) (Num 3) (Num 0) (Num 600) (Date 2024 2 16)]))
        ''CUST-7'' = 1000
   \<and> customer_segment (rows (transformed float64_sums
        [order ''CUST-7'' ''no-at-sign'' (Num 100) (Num 4) (Num 0) (Num 400) (Date 2024 1 15),
         order ''CUST-7'' ''a@b.com'' (Num 200) (Num 3) (Num 0) (Num 600) (Date 2024 2 16)]) ! 0)
     = Regular
   \<and> customer_segment (rows (transformed float64_sums
        [order ''CUST-7'' ''no-at-sign'' (Num 100) (Num 4) (Num 0) (Num 400) (Date 2024 1 15),
         order ''CUST-7'' ''a@b.com'' (Num 200) (Num 3) (Num 0) (Num 600) (Date 2024 2 16)]) ! 1)
     = Regular"
proof -
  let ?raw = "[order ''CUST-7'' ''no-at-sign'' (Num 100) (Num 4) (Num 0) (Num 400) (Date 2024 1 15),
               order ''CUST-7'' ''a@b.com'' (Num 200) (Num 3) (Num 0) (Num 600) (Date 2024 2 16)]"
  let ?s = "init\<lparr>raw_data := Some ?raw\<rparr>"
  let ?rows = "rows (transformed float64_sums ?raw)"
  have h1: "raw_data ?s = Some ?raw"
    by simp
  have h2: "fst (transform_data float64_sums ?s) = Return (Some (transformed float64_sums ?raw))"
    by code_simp
  have t: "customer_total float64_sums ?rows ''CUST-7'' = 1000"
    by code_simp
  have m: "?rows ! 0 \<in> set ?rows" "?rows ! 1 \<in> set ?rows"
    by (rule nth_mem, simp add: transformed_def length_enrich)+
  have i: "customer_id (?rows ! 0) = Some ''CUST-7''" "customer_id (?rows ! 1) = Some ''CUST-7''"
    by (simp_all add: rows_transformed_nth order_def)
  from customer_segment_by_total [OF h1 h2]
  have "\<forall>r\<in>set ?rows. \<forall>c. customer_id r = Some c \<longrightarrow>
          customer_total float64_sums ?rows c = 1000 \<longrightarrow> customer_segment r = Regular"
    by blast
  with m i t have "customer_segment (?rows ! 0) = Regular" "customer_segment (?rows ! 1) = Regular"
    by blast+
  with h1 h2 t show ?thesis
    by simp
qed

text \<open>
  C4, as amended. A zero-row table is not reported as an undefined result: the error
  escapes to the caller. \<^verbatim>\<open>transform_data\<close> on a raw table without rows raises
  \<^verbatim>\<open>ZeroDivisionError\<close> when it computes \<^verbatim>\<open>data_quality_score\<close>, and stores neither a
  report nor a processed table; \<^verbatim>\<open>load_and_analyze\<close> on a processed table without rows
  raises \<^verbatim>\<open>ValueError\<close> when it takes \<^verbatim>\<open>idxmax\<close> for \<^verbatim>\<open>top_category\<close>.
\<close>

theorem empty_table_raises:
  "(raw_data s = Some [] \<longrightarrow>
      fst (transform_data L s) = Raise ZeroDivisionError
      \<and> data_quality_report (snd (transform_data L s)) = data_quality_report s
      \<and> processed_data (snd (transform_data L s)) = processed_data s)
   \<and> (processed_data s = Some out \<and> rows out = [] \<longrightarrow>
      fst (load_and_analyze L s) = Raise ValueError)"
proof (intro conjI impI)
  assume e: "raw_data s = Some []"
  have "\<not> some_flagged []"
    by (simp add: some_flagged_def)
  with e have t: "transform_data L s = (Raise ZeroDivisionError, entered s)"
    by (simp add: transform_data_unflagged)
  show "fst (transform_data L s) = Raise ZeroDivisionError"
    by (simp add: t)
  show "data_quality_report (snd (transform_data L s)) = data_quality_report s"
    by (simp add: t report_entered)
  show "processed_data (snd (transform_data L s)) = processed_data s"
    by (simp add: t processed_entered)
next
  assume "processed_data s = Some out \<and> rows out = []"
  then show "fst (load_and_analyze L s) = Raise ValueError"
    by (simp add: load_and_analyze_def groupby_sum_def List.map_filter_simps)
qed

theorem empty_table_counterexample:
  "fst (run_transform []) = Raise ZeroDivisionError
   \<and> data_quality_report (snd (run_transform [])) = None
   \<and> fst (run_analyze \<lparr>rows = [], data_quality_flag = None\<rparr>) = Raise ValueError"
  by code_simp

theorem empty_table_raises_witness:
  "raw_data (init\<lparr>raw_data := Some [], processed_data := Some \<lparr>rows = [], data_quality_flag = None\<rparr>\<rparr>)
     = Some []
   \<and> processed_data (init\<lparr>raw_data := Some [], processed_data := Some \<lparr>rows = [], data_quality_flag = None\<rparr>\<rparr>)
     = Some \<lparr>rows = [], data_quality_flag = None\<rparr>
   \<and> rows \<lparr>rows = [], data_quality_flag = None\<rparr> = []
   \<and> fst (transform_data float64_sums (init\<lparr>raw_data := Some [], processed_data := Some \<lparr>rows = [], data_quality_flag = None\<rparr>\<rparr>))
     = Raise ZeroDivisionError
   \<and> fst (load_and_analyze float64_sums (init\<lparr>raw_data := Some [], processed_data := Some \<lparr>rows = [], data_quality_flag = None\<rparr>\<rparr>))
     = Raise ValueError"
  using empty_table_raises [where L = float64_sums
      and s = "init\<lparr>raw_data := Some [], processed_data := Some \<lparr>rows = [], data_quality_flag = None\<rparr>\<rparr>"
      and out = "\<lparr>rows = [], data_quality_flag = None\<rparr>"]
  by simp

text \<open>
  C5, as amended. During Transform \<^verbatim>\<open>total_amount\<close> is not recomputed: the column is
  coerced to numbers (a value that is not a number becomes missing) and is otherwise
  taken verbatim from the source row, whatever the row's price, quantity and discount
  are; \<^verbatim>\<open>revenue\<close> is a copy of it.
\<close>

theorem total_amount_taken_from_source:
  assumes "raw_data s = Some raw" and "fst (transform_data L s) = Return (Some out)"
    and "i < length raw"
  shows "total_amount (rows out ! i) = to_numeric (total_amount (raw ! i))
       \<and> revenue (rows out ! i) = to_numeric (total_amount (raw ! i))"
proof -
  from assms(1,2) have "out = transformed L raw"
    by (rule transform_data_returns)
  with assms(3) show ?thesis
    by (simp add: rows_transformed_nth)
qed

text \<open>An order of 2 items at 10 without discount, stored with the amount 999, keeps
  999; the formula, as the generator of sample data computes it, gives 20.\<close>

theorem total_amount_recomputed_counterexample:
  "map_option (map total_amount \<circ> rows)
     (processed_data (snd (run_transform
        [order ''CUST-1'' ''no-at-sign'' (Num 10) (Num 2) (Num 0) (Num 999) (Date 2024 1 15)])))
     = Some [Num 999]
   \<and> generated_total_amount 10 2 0 = Fin 20"
  by code_simp

theorem total_amount_taken_from_source_witness:
  "raw_data (init\<lparr>raw_data := Some
        [order ''CUST-1'' ''no-at-sign'' (Num 10) (Num 2) (Num 0) (Text ''n/a'') (Date 2024 1 15),
         order ''CUST-2'' ''a@b.com'' (Num 10) (Num 2) (Num 0) (Num 999) (Date 2024 1 16)]\<rparr>)
     = Some [order ''CUST-1'' ''no-at-sign'' (Num 10) (Num 2) (Num 0) (Text ''n/a'') (Date 2024 1 15),
             order ''CUST-2'' ''a@b.com'' (Num 10) (Num 2) (Num 0) (Num 999) (Date 2024 1 16)]
   \<and> fst (transform_data float64_sums (init\<lparr>raw_data := Some
        [order ''CUST-1'' ''no-at-sign'' (Num 10) (Num 2) (Num 0) (Text ''n/a'') (Date 2024 1 15),
         order ''CUST-2'' ''a@b.com'' (Num 10) (Num 2) (Num 0) (Num 999) (Date 2024 1 16)]\<rparr>))
     = Return (Some (transformed float64_sums
        [order ''CUST-1'' ''no-at-sign'' (Num 10) (Num 2) (Num 0) (Text ''n/a'') (Date 2024 1 15),
         order ''CUST-2'' ''a@b.com'' (Num 10) (Num 2) (Num 0) (Num 999) (Date 2024 1 16)]))
   \<and> (1::nat) < 2
   \<and> total_amount (rows (transformed float64_sums
        [order ''CUST-1'' ''no-at-sign'' (Num 10) (Num 2) (Num 0) (Text ''n/a'') (Date 2024 1 15),
         order ''CUST-2'' ''a@b.com'' (Num 10) (Num 2) (Num 0) (Num 999) (Date 2024 1 16)]) ! 1)
     = Num 999
   \<and> revenue (rows (transformed float64_sums
        [order ''CUST-1'' ''no-at-sign'' (Num 10) (Num 2) (Num 0) (Text ''n/a'') (Date 2024 1 15),
         order ''CUST-2'' ''a@b.com'' (Num 10) (Num 2) (Num 0) (Num 999) (Date 2024 1 16)]) ! 1)
     = Num 999"
proof -
  let ?raw = "[order ''CUST-1'' ''no-at-sign'' (Num 10) (Num 2) (Num 0) (Text ''n/a'') (Date 2024 1 15),
               order ''CUST-2'' ''a@b.com'' (Num 10) (Num 2) (Num 0) (Num 999) (Date 2024 1 16)]"
  let ?s = "init\<lparr>raw_data := Some ?raw\<rparr>"
  have h1: "raw_data ?s = Some ?raw"
    by simp
  have h2: "fst (transform_data float64_sums ?s) = Return (Some (transformed float64_sums ?raw))"
    by code_simp
  have h3: "1 < length ?raw"
    by simp
  from total_amount_taken_from_source [OF h1 h2 h3]
  have "total_amount (rows (transformed float64_sums ?raw) ! 1) = Num 999"
    and "revenue (rows (transformed float64_sums ?raw) ! 1) = Num 999"
    by (simp_all add: order_def)
  with h1 h2 show ?thesis
    by simp
qed

text \<open>
  C6. The report is to give \<^verbatim>\<open>clean_records\<close> as the number of rows without a flag,
  also when no row at all was flagged, with \<^verbatim>\<open>error_records\<close> the rest of the rows.
  A stored report has these counts (\<open>stored_report_counts\<close>). But on a table with
  rows of which none matches a rule, no validation block creates the flag column; the
  summary then indexes the frame with the empty default series, which cannot be aligned
  with the frame's rows, and \<^verbatim>\<open>transform_data\<close> raises \<^verbatim>\<open>IndexingError\<close>: no report
  is stored for the one-row table below, whose row is clean.
\<close>

theorem clean_table_raises:
  "fst (run_transform
     [order ''CUST-1'' ''a@b.com'' (Num 10) (Num 2) (Num 0) (Num 20) (Date 2024 1 15)])
     = Raise IndexingError
   \<and> data_quality_report (snd (run_transform
     [order ''CUST-1'' ''a@b.com'' (Num 10) (Num 2) (Num 0) (Num 20) (Date 2024 1 15)]))
     = None"
  by code_simp

text \<open>
  C8. Running Transform twice on the same raw table, with nothing in between, leaves
  the same Data Quality Report both times (total, clean and error records, score and
  issues), and the second run ends as the first did: with the same exception, or with
  the same processed table in the columns of the embedding. Transform does not change
  the raw table it reads.
\<close>

theorem transform_twice_same_report:
  "raw_data (snd (transform_data L s)) = raw_data s
   \<and> fst (transform_data L (snd (transform_data L s))) = fst (transform_data L s)
   \<and> data_quality_report (snd (transform_data L (snd (transform_data L s))))
       = data_quality_report (snd (transform_data L s))"
proof (cases "raw_data s")
  case None
  then show ?thesis
    by (simp add: transform_data_none log_line_def)
next
  case (Some raw)
  show ?thesis
  proof (cases "some_flagged raw")
    case True
    let ?s' = "snd (transform_data L s)"
    from Some True have r: "raw_data ?s' = Some raw"
      by (simp add: transform_data_flagged log_line_def raw_data_entered)
    from Some True have "fst (transform_data L s) = Return (Some (transformed L raw))"
      and "data_quality_report ?s' = Some (reported raw)"
      by (simp_all add: transform_data_flagged log_line_def)
    moreover from r True have "fst (transform_data L ?s') = Return (Some (transformed L raw))"
      and "data_quality_report (snd (transform_data L ?s')) = Some (reported raw)"
      by (simp_all add: transform_data_flagged log_line_def)
    ultimately show ?thesis
      using Some r by simp
  next
    case False
    let ?s' = "snd (transform_data L s)"
    from Some False have t: "transform_data L s =
        (Raise (if raw = [] then ZeroDivisionError else IndexingError), entered s)"
      by (rule transform_data_unflagged)
    then have r: "raw_data ?s' = Some raw"
      using Some by (simp add: raw_data_entered)
    from r False have "transform_data L ?s' =
        (Raise (if raw = [] then ZeroDivisionError else IndexingError), entered ?s')"
      by (rule transform_data_unflagged)
    with t Some show ?thesis
      by (simp add: raw_data_entered report_entered)
  qed
qed

theorem transform_twice_same_report_witness:
  "data_quality_report (snd (run_transform
      [order ''CUST-1'' ''a@b.com'' (Num 10) (Num 2) (Num 0) (Num 20) (Date 2024 1 15),
       order ''CUST-2'' ''c@d.com'' (Num (- 5)) (Num 1) (Num 0) (Num (- 5)) (Date 2024 1 16),
       order ''CUST-3'' ''e@f.com'' (Num 20) (Num 0) (Num 0) (Num 0) (Date 2024 1 17),
       order ''CUST-4'' ''g@h.com'' (Num 30) (Num 1) (Num 10) (Num 27) (Date 2024 1 18)]))
     = Some \<lparr>total_records = 4, clean_records = 2, error_records = 2,
             data_quality_score = Fin 50,
             quality_issues = [(''Invalid prices'', 1), (''Invalid quantities'', 1)]\<rparr>
   \<and> data_quality_report (snd (transform_data float64_sums (snd (run_transform
      [order ''CUST-1'' ''a@b.com'' (Num 10) (Num 2) (Num 0) (Num 20) (Date 2024 1 15),
       order ''CUST-2'' ''c@d.com'' (Num (- 5)) (Num 1) (Num 0) (Num (- 5)) (Date 2024 1 16),
       order ''CUST-3'' ''e@f.com'' (Num 20) (Num 0) (Num 0) (Num 0) (Date 2024 1 17),
       order ''CUST-4'' ''g@h.com'' (Num 30) (Num 1) (Num 10) (Num 27) (Date 2024 1 18)]))))
     = Some \<lparr>total_records = 4, clean_records = 2, error_records = 2,
             data_quality_score = Fin 50,
             quality_issues = [(''Invalid prices'', 1), (''Invalid quantities'', 1)]\<rparr>"
proof -
  let ?raw = "[order ''CUST-1'' ''a@b.com'' (Num 10) (Num 2) (Num 0) (Num 20) (Date 2024 1 15),
       order ''CUST-2'' ''c@d.com'' (Num (- 5)) (Num 1) (Num 0) (Num (- 5)) (Date 2024 1 16),
       order ''CUST-3'' ''e@f.com'' (Num 20) (Num 0) (Num 0) (Num 0) (Date 2024 1 17),
       order ''CUST-4'' ''g@h.com'' (Num 30) (Num 1) (Num 10) (Num 27) (Date 2024 1 18)]"
  have a: "data_quality_report (snd (run_transform ?raw))
     = Some \<lparr>total_records = 4, clean_records = 2, error_records = 2,
             data_quality_score = Fin 50,
             quality_issues = [(''Invalid prices'', 1), (''Invalid quantities'', 1)]\<rparr>"
    by code_simp
  from transform_twice_same_report [where L = float64_sums and s = "init\<lparr>raw_data := Some ?raw\<rparr>"]
  have "data_quality_report (snd (transform_data float64_sums (snd (run_transform ?raw))))
      = data_quality_report (snd (run_transform ?raw))"
    by (simp add: run_transform_def)
  with a show ?thesis
    by simp
qed

text \<open>
  C9. Each \<^verbatim>\<open>quality_issues\<close> entry counts every row that matches its rule, whatever
  flag the row ends with: the entries are, in this order and each only when its count is
  positive, the number of rows whose e-mail has no at-sign, the number of rows whose
  coerced price is at most 0, and the number of rows whose coerced quantity is at most
  0. A row that violates the email rule and the price rule is counted in both entries,
  so there are tables for which the counts add up to more than \<^verbatim>\<open>error_records\<close>.
\<close>

theorem quality_issues_count_every_match:
  "(\<forall>s raw out rep.
      raw_data s = Some raw \<and> fst (transform_data L s) = Return (Some out)
      \<and> data_quality_report (snd (transform_data L s)) = Some rep \<longrightarrow>
      quality_issues rep =
        filter (\<lambda>(name, n). 0 < n)
          [(''Invalid emails'',
              length (filter (\<lambda>r. \<not> str_contains_at (customer_email r)) raw)),
           (''Invalid prices'',
              length (filter (\<lambda>r. le_zero (to_numeric (price r))) raw)),
           (''Invalid quantities'',
              length (filter (\<lambda>r. le_zero (to_numeric (quantity r))) raw))])
   \<and> (\<exists>raw rep.
        data_quality_report (snd (run_transform raw)) = Some rep
        \<and> error_records rep < int (sum_list (map snd (quality_issues rep))))"
proof (intro conjI allI impI)
  fix s raw out rep
  assume a: "raw_data s = Some raw \<and> fst (transform_data L s) = Return (Some out)
      \<and> data_quality_report (snd (transform_data L s)) = Some rep"
  then have "data_quality_report (snd (transform_data L s)) = Some (reported raw)"
    by (intro transform_data_returns(3) [where out = out]) simp_all
  with a have "rep = reported raw"
    by simp
  then show "quality_issues rep =
        filter (\<lambda>(name, n). 0 < n)
          [(''Invalid emails'',
              length (filter (\<lambda>r. \<not> str_contains_at (customer_email r)) raw)),
           (''Invalid prices'',
              length (filter (\<lambda>r. le_zero (to_numeric (price r))) raw)),
           (''Invalid quantities'',
              length (filter (\<lambda>r. le_zero (to_numeric (quantity r))) raw))]"
    by (simp add: reported_def Let_def fst_validate filter_map comp_def
        email_invalid_def price_invalid_def quantity_invalid_def)
next
  let ?raw = "[order ''CUST-1'' ''no-at-sign'' (Num (- 10)) (Num 1) (Num 0) (Num (- 10)) (Date 2024 1 15)]"
  let ?rep = "\<lparr>total_records = 1, clean_records = 0, error_records = 1,
               data_quality_score = Fin 0,
               quality_issues = [(''Invalid emails'', 1), (''Invalid prices'', 1)]\<rparr>"
  have "data_quality_report (snd (run_transform ?raw)) = Some ?rep"
    by code_simp
  moreover have "error_records ?rep < int (sum_list (map snd (quality_issues ?rep)))"
    by simp
  ultimately show "\<exists>raw rep.
        data_quality_report (snd (run_transform raw)) = Some rep
        \<and> error_records rep < int (sum_list (map snd (quality_issues rep)))"
    by blast
qed

theorem quality_issues_count_every_match_witness:
  "raw_data (init\<lparr>raw_data := Some
       [order ''CUST-1'' ''no-at-sign'' (Num (- 10)) (Num 1) (Num 0) (Num (- 10)) (Date 2024 1 15),
        order ''CUST-2'' ''a@b.com'' (Num 10) (Num 1) (Num 0) (Num 10) (Date 2024 1 16)]\<rparr>)
     = Some [order ''CUST-1'' ''no-at-sign'' (Num (- 10)) (Num 1) (Num 0) (Num (- 10)) (Date 2024 1 15),
             order ''CUST-2'' ''a@b.com'' (Num 10) (Num 1) (Num 0) (Num 10) (Date 2024 1 16)]
   \<and> data_quality_report (snd (transform_data float64_sums (init\<lparr>raw_data := Some
       [order ''CUST-1'' ''no-at-sign'' (Num (- 10)) (Num 1) (Num 0) (Num (- 10)) (Date 2024 1 15),
        order ''CUST-2'' ''a@b.com'' (Num 10) (Num 1) (Num 0) (Num 10) (Date 2024 1 16)]\<rparr>)))
     = Some \<lparr>total_records = 2, clean_records = 1, error_records = 1,
             data_quality_score = Fin 50,
             quality_issues = [(''Invalid emails'', 1), (''Invalid prices'', 1)]\<rparr>
   \<and> fst (transform_data float64_sums (init\<lparr>raw_data := Some
       [order ''CUST-1'' ''no-at-sign'' (Num (- 10)) (Num 1) (Num 0) (Num (- 10)) (Date 2024 1 15),
        order ''CUST-2'' ''a@b.com'' (Num 10) (Num 1) (Num 0) (Num 10) (Date 2024 1 16)]\<rparr>))
     = Return (Some (transformed float64_sums
       [order ''CUST-1'' ''no-at-sign'' (Num (- 10)) (Num 1) (Num 0) (Num (- 10)) (Date 2024 1 15),
        order ''CUST-2'' ''a@b.com'' (Num 10) (Num 1) (Num 0) (Num 10) (Date 2024 1 16)]))
   \<and> [(''Invalid emails'', 1), (''Invalid prices'', 1)] =
        filter (\<lambda>(name, n). 0 < n)
          [(''Invalid emails'',
              length (filter (\<lambda>r. \<not> str_contains_at (customer_email r))
                [order ''CUST-1'' ''no-at-sign'' (Num (- 10)) (Num 1) (Num 0) (Num (- 10)) (Date 2024 1 15),
                 order ''CUST-2'' ''a@b.com'' (Num 10) (Num 1) (Num 0) (Num 10) (Date 2024 1 16)])),
           (''Invalid prices'',
              length (filter (\<lambda>r. le_zero (to_numeric (price r)))
                [order ''CUST-1'' ''no-at-sign'' (Num (- 10)) (Num 1) (Num 0) (Num (- 10)) (Date 2024 1 15),
                 order ''CUST-2'' ''a@b.com'' (Num 10) (Num 1) (Num 0) (Num 10) (Date 2024 1 16)])),
           (''Invalid quantities'',
              length (filter (\<lambda>r. le_zero (to_numeric (quantity r)))
                [order ''CUST-1'' ''no-at-sign'' (Num (- 10)) (Num 1) (Num 0) (Num (- 10)) (Date 2024 1 15),
                 order ''CUST-2'' ''a@b.com'' (Num 10) (Num 1) (Num 0) (Num 10) (Date 2024 1 16)]))]"
proof -
  let ?raw = "[order ''CUST-1'' ''no-at-sign'' (Num (- 10)) (Num 1) (Num 0) (Num (- 10)) (Date 2024 1 15),
               order ''CUST-2'' ''a@b.com'' (Num 10) (Num 1) (Num 0) (Num 10) (Date 2024 1 16)]"
  let ?s = "init\<lparr>raw_data := Some ?raw\<rparr>"
  let ?rep = "\<lparr>total_records = 2, clean_records = 1, error_records = 1,
               data_quality_score = Fin 50,
               quality_issues = [(''Invalid emails'', 1), (''Invalid prices'', 1)]\<rparr>"
  have h1: "raw_data ?s = Some ?raw"
    by simp
  have h2: "data_quality_report (snd (transform_data float64_sums ?s)) = Some ?rep"
    by code_simp
  have h3: "fst (transform_data float64_sums ?s) = Return (Some (transformed float64_sums ?raw))"
    by code_simp
  from quality_issues_count_every_match
  have "raw_data ?s = Some ?raw \<and> fst (transform_data float64_sums ?s) = Return (Some (transformed float64_sums ?raw))
      \<and> data_quality_report (snd (transform_data float64_sums ?s)) = Some ?rep \<longrightarrow>
      quality_issues ?rep =
        filter (\<lambda>(name, n). 0 < n)
          [(''Invalid emails'',
              length (filter (\<lambda>r. \<not> str_contains_at (customer_email r)) ?raw)),
           (''Invalid prices'',
              length (filter (\<lambda>r. le_zero (to_numeric (price r))) ?raw)),
           (''Invalid quantities'',
              length (filter (\<lambda>r. le_zero (to_numeric (quantity r))) ?raw))]"
    by blast
  with h1 h2 h3 show ?thesis
    by simp
qed

text \<open>
  C7. \<^verbatim>\<open>monthly_growth\<close> groups revenue by month, orders the months chronologically
  and compares the last two. With \<open>m2\<close> the latest month of the table and \<open>m1\<close> the month
  immediately before it among the table's months (every month of the table is \<open>m2\<close> or
  at most \<open>m1\<close>), the result is the percent change of the revenue of \<open>m2\<close> over that of
  \<open>m1\<close>, rounded to 2 decimals: it is \<open>k/100\<close> for the whole number \<open>k\<close> nearest to 100
  times the percent change (the even one of two equally near), the revenues being the
  sums the code computes and each step a float64 operation; a percent change that is
  not finite is returned as it is. Revenue 100 in one month and 150 in the next yields
  50, revenue 160 and then 67 yields -58.13. With fewer than two distinct months the
  result is 0.
\<close>

theorem monthly_growth_percent_change:
  "(card (set (months_of df)) < 2 \<longrightarrow> calculate_monthly_growth L df = Fin 0)
   \<and> (m1 \<in> set (months_of df) \<and> m2 \<in> set (months_of df) \<and> m1 < m2
        \<and> (\<forall>m\<in>set (months_of df). m \<le> m1 \<or> m = m2) \<longrightarrow>
      (\<forall>y. f_mul (percent_change (revenue_of_month L df m2) (revenue_of_month L df m1)) (Fin 100)
             = Fin y \<longrightarrow>
           (\<exists>k. \<bar>of_int k - y\<bar> \<le> 1 / 2 \<and> (\<bar>of_int k - y\<bar> = 1 / 2 \<longrightarrow> even k)
              \<and> calculate_monthly_growth L df = f_div (Fin (of_int k)) (Fin 100)))
      \<and> ((\<forall>y. f_mul (percent_change (revenue_of_month L df m2) (revenue_of_month L df m1)) (Fin 100)
             \<noteq> Fin y) \<longrightarrow>
           calculate_monthly_growth L df =
             f_mul (percent_change (revenue_of_month L df m2) (revenue_of_month L df m1)) (Fin 100)))"
proof (intro conjI impI allI)
  assume "card (set (months_of df)) < 2"
  then show "calculate_monthly_growth L df = Fin 0"
    by (rule calculate_monthly_growth_few)
next
  let ?pc = "percent_change (revenue_of_month L df m2) (revenue_of_month L df m1)"
  fix y
  assume a: "m1 \<in> set (months_of df) \<and> m2 \<in> set (months_of df) \<and> m1 < m2
        \<and> (\<forall>m\<in>set (months_of df). m \<le> m1 \<or> m = m2)"
    and y: "f_mul ?pc (Fin 100) = Fin y"
  from a have "calculate_monthly_growth L df = np_round2 ?pc"
    by (intro calculate_monthly_growth_last_two) simp_all
  with y have "calculate_monthly_growth L df = f_div (Fin (of_int (round_half_even y))) (Fin 100)"
    by (simp add: np_round2_Fin)
  moreover have "\<bar>of_int (round_half_even y) - y\<bar> \<le> 1 / 2"
    by (rule round_half_even_near)
  moreover have "\<bar>of_int (round_half_even y) - y\<bar> = 1 / 2 \<longrightarrow> even (round_half_even y)"
    by (simp add: round_half_even_tie)
  ultimately show "\<exists>k. \<bar>of_int k - y\<bar> \<le> 1 / 2 \<and> (\<bar>of_int k - y\<bar> = 1 / 2 \<longrightarrow> even k)
              \<and> calculate_monthly_growth L df = f_div (Fin (of_int k)) (Fin 100)"
    by blast
next
  let ?pc = "percent_change (revenue_of_month L df m2) (revenue_of_month L df m1)"
  assume a: "m1 \<in> set (months_of df) \<and> m2 \<in> set (months_of df) \<and> m1 < m2
        \<and> (\<forall>m\<in>set (months_of df). m \<le> m1 \<or> m = m2)"
    and n: "\<forall>y. f_mul ?pc (Fin 100) \<noteq> Fin y"
  from a have "calculate_monthly_growth L df = np_round2 ?pc"
    by (intro calculate_monthly_growth_last_two) simp_all
  with n show "calculate_monthly_growth L df = f_mul ?pc (Fin 100)"
    by (simp add: np_round2_not_Fin)
qed

theorem monthly_growth_percent_change_witness:
  "card (set (months_of (enrich float64_sums (map convert_types
      [order ''CUST-1'' ''a@b.com'' (Num 75) (Num 2) (Num 0) (Num 150) (Date 2024 2 3)])))) < 2
   \<and> calculate_monthly_growth float64_sums (enrich float64_sums (map convert_types
      [order ''CUST-1'' ''a@b.com'' (Num 75) (Num 2) (Num 0) (Num 150) (Date 2024 2 3)])) = Fin 0
   \<and> revenue_of_month float64_sums (enrich float64_sums (map convert_types
      [order ''CUST-1'' ''a@b.com'' (Num 75) (Num 2) (Num 0) (Num 150) (Date 2024 2 3),
       order ''CUST-2'' ''c@d.com'' (Num 60) (Num 1) (Num 0) (Num 60) (Date 2024 1 20),
       order ''CUST-3'' ''e@f.com'' (Num 40) (Num 1) (Num 0) (Num 40) (Date 2024 1 9),
       order ''CUST-4'' ''g@h.com'' (Num 10) (Num 1) (Num 0) (Num 10) (Date 2023 12 30)])) (2024, 1)
      = 100
   \<and> revenue_of_month float64_sums (enrich float64_sums (map convert_types
      [order ''CUST-1'' ''a@b.com'' (Num 75) (Num 2) (Num 0) (Num 150) (Date 2024 2 3),
       order ''CUST-2'' ''c@d.com'' (Num 60) (Num 1) (Num 0) (Num 60) (Date 2024 1 20),
       order ''CUST-3'' ''e@f.com'' (Num 40) (Num 1) (Num 0) (Num 40) (Date 2024 1 9),
       order ''CUST-4'' ''g@h.com'' (Num 10) (Num 1) (Num 0) (Num 10) (Date 2023 12 30)])) (2024, 2)
      = 150
   \<and> calculate_monthly_growth float64_sums (enrich float64_sums (map convert_types
      [order ''CUST-1'' ''a@b.com'' (Num 75) (Num 2) (Num 0) (Num 150) (Date 2024 2 3),
       order ''CUST-2'' ''c@d.com'' (Num 60) (Num 1) (Num 0) (Num 60) (Date 2024 1 20),
       order ''CUST-3'' ''e@f.com'' (Num 40) (Num 1) (Num 0) (Num 40) (Date 2024 1 9),
       order ''CUST-4'' ''g@h.com'' (Num 10) (Num 1) (Num 0) (Num 10) (Date 2023 12 30)])) = Fin 50
   \<and> revenue_of_month float64_sums (enrich float64_sums (map convert_types
      [order ''CUST-1'' ''a@b.com'' (Num 80) (Num 2) (Num 0) (Num 160) (Date 2024 5 3),
       order ''CUST-2'' ''c@d.com'' (Num 67) (Num 1) (Num 0) (Num 67) (Date 2024 6 20)])) (2024, 5)
      = 160
   \<and> revenue_of_month float64_sums (enrich float64_sums (map convert_types
      [order ''CUST-1'' ''a@b.com'' (Num 80) (Num 2) (Num 0) (Num 160) (Date 2024 5 3),
       order ''CUST-2'' ''c@d.com'' (Num 67) (Num 1) (Num 0) (Num 67) (Date 2024 6 20)])) (2024, 6)
      = 67
   \<and> calculate_monthly_growth float64_sums (enrich float64_sums (map convert_types
      [order ''CUST-1'' ''a@b.com'' (Num 80) (Num 2) (Num 0) (Num 160) (Date 2024 5 3),
       order ''CUST-2'' ''c@d.com'' (Num 67) (Num 1) (Num 0) (Num 67) (Date 2024 6 20)]))
      = fl64 (- 5813 / 100)"
proof -
  let ?L = float64_sums
  let ?one = "enrich ?L (map convert_types
      [order ''CUST-1'' ''a@b.com'' (Num 75) (Num 2) (Num 0) (Num 150) (Date 2024 2 3)])"
  let ?df = "enrich ?L (map convert_types
      [order ''CUST-1'' ''a@b.com'' (Num 75) (Num 2) (Num 0) (Num 150) (Date 2024 2 3),
       order ''CUST-2'' ''c@d.com'' (Num 60) (Num 1) (Num 0) (Num 60) (Date 2024 1 20),
       order ''CUST-3'' ''e@f.com'' (Num 40) (Num 1) (Num 0) (Num 40) (Date 2024 1 9),
       order ''CUST-4'' ''g@h.com'' (Num 10) (Num 1) (Num 0) (Num 10) (Date 2023 12 30)])"
  let ?dg = "enrich ?L (map convert_types
      [order ''CUST-1'' ''a@b.com'' (Num 80) (Num 2) (Num 0) (Num 160) (Date 2024 5 3),
       order ''CUST-2'' ''c@d.com'' (Num 67) (Num 1) (Num 0) (Num 67) (Date 2024 6 20)])"
  have o: "card (set (months_of ?one)) < 2"
    by code_simp
  from monthly_growth_percent_change [of ?one ?L] o
  have a: "calculate_monthly_growth ?L ?one = Fin 0"
    by blast
  have h: "(2024, 1) \<in> set (months_of ?df) \<and> (2024, 2) \<in> set (months_of ?df)
      \<and> ((2024, 1) :: period) < (2024, 2)
      \<and> (\<forall>m\<in>set (months_of ?df). m \<le> (2024, 1) \<or> m = (2024, 2))"
    by code_simp
  have r1: "revenue_of_month ?L ?df (2024, 1) = 100"
    by code_simp
  have r2: "revenue_of_month ?L ?df (2024, 2) = 150"
    by code_simp
  have y: "f_mul (percent_change 150 100) (Fin 100) = Fin 5000"
    by code_simp
  from monthly_growth_percent_change [of ?df ?L "(2024, 1)" "(2024, 2)"] h
  have "\<forall>y. f_mul (percent_change (revenue_of_month ?L ?df (2024, 2))
                   (revenue_of_month ?L ?df (2024, 1))) (Fin 100) = Fin y \<longrightarrow>
           (\<exists>k. \<bar>of_int k - y\<bar> \<le> 1 / 2 \<and> (\<bar>of_int k - y\<bar> = 1 / 2 \<longrightarrow> even k)
              \<and> calculate_monthly_growth ?L ?df = f_div (Fin (of_int k)) (Fin 100))"
    by blast
  with y obtain k where k: "\<bar>of_int k - (5000 :: rat)\<bar> \<le> 1 / 2"
    and g: "calculate_monthly_growth ?L ?df = f_div (Fin (of_int k)) (Fin 100)"
    unfolding r1 r2 by blast
  from k have "k = 5000"
    by (rule nearest_int_unique) simp_all
  moreover have "f_div (Fin (of_int 5000)) (Fin 100) = Fin 50"
    by code_simp
  ultimately have b: "calculate_monthly_growth ?L ?df = Fin 50"
    using g by simp
  have h': "(2024, 5) \<in> set (months_of ?dg) \<and> (2024, 6) \<in> set (months_of ?dg)
      \<and> ((2024, 5) :: period) < (2024, 6)
      \<and> (\<forall>m\<in>set (months_of ?dg). m \<le> (2024, 5) \<or> m = (2024, 6))"
    by code_simp
  have r1': "revenue_of_month ?L ?dg (2024, 5) = 160"
    by code_simp
  have r2': "revenue_of_month ?L ?dg (2024, 6) = 67"
    by code_simp
  have y': "f_mul (percent_change 67 160) (Fin 100) = Fin (- 6390911336448001 / 1099511627776)"
    by code_simp
  from monthly_growth_percent_change [of ?dg ?L "(2024, 5)" "(2024, 6)"] h'
  have "\<forall>y. f_mul (percent_change (revenue_of_month ?L ?dg (2024, 6))
                   (revenue_of_month ?L ?dg (2024, 5))) (Fin 100) = Fin y \<longrightarrow>
           (\<exists>k. \<bar>of_int k - y\<bar> \<le> 1 / 2 \<and> (\<bar>of_int k - y\<bar> = 1 / 2 \<longrightarrow> even k)
              \<and> calculate_monthly_growth ?L ?dg = f_div (Fin (of_int k)) (Fin 100))"
    by blast
  with y' obtain k' where k': "\<bar>of_int k' - (- 6390911336448001 / 1099511627776 :: rat)\<bar> \<le> 1 / 2"
    and g': "calculate_monthly_growth ?L ?dg = f_div (Fin (of_int k')) (Fin 100)"
    unfolding r1' r2' by blast
  from k' have "k' = - 5813"
    by (rule nearest_int_unique) simp_all
  moreover have "f_div (Fin (of_int (- 5813))) (Fin 100) = fl64 (- 5813 / 100)"
    by simp
  ultimately have c: "calculate_monthly_growth ?L ?dg = fl64 (- 5813 / 100)"
    using g' by simp
  from o a r1 r2 b r1' r2' c show ?thesis
    by (intro conjI)
qed

text \<open>
  C10. The division in the month-over-month growth is unguarded. For every processed
  table with at least two distinct months whose second-to-last month \<open>m1\<close> has summed
  revenue exactly 0, the sum being the number the code computes for that month,
  \<^verbatim>\<open>_calculate_monthly_growth\<close> returns no finite percentage and raises nothing: it
  returns an infinity or NaN, namely plus infinity when the sum of the latest month \<open>m2\<close>
  is a positive float64, minus infinity when it is a negative one, and NaN when it is 0.
\<close>

theorem monthly_growth_zero_base:
  assumes "m1 \<in> set (months_of df)" and "m2 \<in> set (months_of df)" and "m1 < m2"
    and "\<forall>m\<in>set (months_of df). m \<le> m1 \<or> m = m2"
    and "revenue_of_month L df m1 = 0"
  shows "(\<forall>x. calculate_monthly_growth L df \<noteq> Fin x)
       \<and> (calculate_monthly_growth L df = PosInf \<or> calculate_monthly_growth L df = NegInf
            \<or> calculate_monthly_growth L df = NaNf)
       \<and> (fl64 (revenue_of_month L df m2) = Fin (revenue_of_month L df m2) \<longrightarrow>
            calculate_monthly_growth L df =
              (if 0 < revenue_of_month L df m2 then PosInf
               else if revenue_of_month L df m2 < 0 then NegInf
               else NaNf))"
proof -
  let ?cur = "revenue_of_month L df m2"
  from assms(1-4) have "calculate_monthly_growth L df =
      np_round2 (percent_change ?cur (revenue_of_month L df m1))"
    by (rule calculate_monthly_growth_last_two)
  with assms(5) have g: "calculate_monthly_growth L df = f_div (fl64 ?cur) (Fin 0)"
    by (simp add: percent_change_def np_round2_div_zero)
  then have a: "\<forall>x. calculate_monthly_growth L df \<noteq> Fin x"
    by (simp add: f_div_zero_not_Fin)
  then have b: "calculate_monthly_growth L df = PosInf \<or> calculate_monthly_growth L df = NegInf
            \<or> calculate_monthly_growth L df = NaNf"
    by (cases "calculate_monthly_growth L df") simp_all
  from g have c: "fl64 ?cur = Fin ?cur \<longrightarrow>
            calculate_monthly_growth L df =
              (if 0 < ?cur then PosInf else if ?cur < 0 then NegInf else NaNf)"
    by simp
  from a b c show ?thesis
    by (intro conjI)
qed

theorem monthly_growth_zero_base_witness:
  "(2024, 1) \<in> set (months_of (enrich float64_sums (map convert_types
      [order ''CUST-1'' ''a@b.com'' (Num 75) (Num 2) (Num 100) (Num 0) (Date 2024 1 3),
       order ''CUST-2'' ''c@d.com'' (Num 60) (Num 1) (Num 0) (Num 60) (Date 2024 3 20)])))
   \<and> (2024, 3) \<in> set (months_of (enrich float64_sums (map convert_types
      [order ''CUST-1'' ''a@b.com'' (Num 75) (Num 2) (Num 100) (Num 0) (Date 2024 1 3),
       order ''CUST-2'' ''c@d.com'' (Num 60) (Num 1) (Num 0) (Num 60) (Date 2024 3 20)])))
   \<and> ((2024, 1) :: period) < (2024, 3)
   \<and> revenue_of_month float64_sums (enrich float64_sums (map convert_types
      [order ''CUST-1'' ''a@b.com'' (Num 75) (Num 2) (Num 100) (Num 0) (Date 2024 1 3),
       order ''CUST-2'' ''c@d.com'' (Num 60) (Num 1) (Num 0) (Num 60) (Date 2024 3 20)])) (2024, 1)
      = 0
   \<and> calculate_monthly_growth float64_sums (enrich float64_sums (map convert_types
      [order ''CUST-1'' ''a@b.com'' (Num 75) (Num 2) (Num 100) (Num 0) (Date 2024 1 3),
       order ''CUST-2'' ''c@d.com'' (Num 60) (Num 1) (Num 0) (Num 60) (Date 2024 3 20)])) = PosInf"
proof -
  let ?L = float64_sums
  let ?df = "enrich ?L (map convert_types
      [order ''CUST-1'' ''a@b.com'' (Num 75) (Num 2) (Num 100) (Num 0) (Date 2024 1 3),
       order ''CUST-2'' ''c@d.com'' (Num 60) (Num 1) (Num 0) (Num 60) (Date 2024 3 20)])"
  have h1: "(2024, 1) \<in> set (months_of ?df)"
    by code_simp
  have h2: "(2024, 3) \<in> set (months_of ?df)"
    by code_simp
  have h3: "((2024, 1) :: period) < (2024, 3)"
    by simp
  have h4: "\<forall>m\<in>set (months_of ?df). m \<le> (2024, 1) \<or> m = (2024, 3)"
    by code_simp
  have h5: "revenue_of_month ?L ?df (2024, 1) = 0"
    by code_simp
  have r: "revenue_of_month ?L ?df (2024, 3) = 60"
    by code_simp
  have f: "fl64 60 = Fin 60"
    by code_simp
  from monthly_growth_zero_base [OF h1 h2 h3 h4 h5]
  have "fl64 (revenue_of_month ?L ?df (2024, 3)) = Fin (revenue_of_month ?L ?df (2024, 3)) \<longrightarrow>
            calculate_monthly_growth ?L ?df =
              (if 0 < revenue_of_month ?L ?df (2024, 3) then PosInf
               else if revenue_of_month ?L ?df (2024, 3) < 0 then NegInf
               else NaNf)"
    by blast
  then have "calculate_monthly_growth ?L ?df = PosInf"
    unfolding r using f by simp
  with h1 h2 h3 h5 show ?thesis
    by (intro conjI)
qed

end
